theory Spec2Isabelle
  imports Main "HOL-Library.AList"
begin

section \<open>CoG Saver: a shallow embedding of \<^verbatim>\<open>cog_saver.py\<close>\<close>

text \<open>
  The program is a small save manager: it remembers the path of a game's live save file,
  derives an archive directory and a quick-save path beside it, and copies files between
  the three. Its window, buttons and dialogs are outside the model; a dialog is a function
  from the string the program hands it to the string it returns (empty when cancelled).

  Conventions of the model.
  \<^item> A Python \<^verbatim>\<open>str\<close> is represented by its UTF-8 encoding, an Isabelle \<open>string\<close>. Every
    string operation the program uses (suffix tests, searching for \<^verbatim>\<open>.\<close>, \<^verbatim>\<open>/\<close> and \<^verbatim>\<open>"\<close>,
    joining, replacing a newline) cuts only at ASCII characters, so it commutes with the
    encoding.
  \<^item> \<^verbatim>\<open>pathlib.Path\<close> is the POSIX flavour, with the semantics of Python 3.8 to 3.13 for
    \<^verbatim>\<open>suffix\<close> and \<^verbatim>\<open>with_suffix\<close>.
  \<^item> The file system is a finite table from paths to nodes. Distinct paths name distinct
    files (no links), there are no permissions, and nothing else changes the table while
    an operation runs. File metadata, which \<^verbatim>\<open>copy2\<close> also copies, is not modelled.
  \<^item> Every call of \<^verbatim>\<open>datetime.now()\<close> reads the next value of a clock supplied by the
    environment.
\<close>

subsection \<open>Strings\<close>

definition dquote :: char where
  "dquote = CHR 0x22"

definition squote :: char where
  "squote = CHR 0x27"

definition newline :: char where
  "newline = CHR 0x0A"

definition carriage_return :: char where
  "carriage_return = CHR 0x0D"

definition backslash :: char where
  "backslash = CHR 0x5C"

text \<open>\<^verbatim>\<open>s.endswith(suf)\<close> and \<^verbatim>\<open>s.startswith(pre)\<close>.\<close>

definition endswith :: "string \<Rightarrow> string \<Rightarrow> bool" where
  "endswith s suf = (length suf \<le> length s \<and> drop (length s - length suf) s = suf)"

definition startswith :: "string \<Rightarrow> string \<Rightarrow> bool" where
  "startswith s pre = (take (length pre) s = pre)"

text \<open>\<^verbatim>\<open>s.split(sep)\<close> for a one-character separator: never empty, one more piece than
  there are separators.\<close>

fun split_char :: "char \<Rightarrow> string \<Rightarrow> string list" where
  "split_char sep [] = [[]]"
| "split_char sep (c # cs) =
     (if c = sep then [] # split_char sep cs
      else (case split_char sep cs of
              [] \<Rightarrow> [[c]]
            | p # ps \<Rightarrow> (c # p) # ps))"

text \<open>\<^verbatim>\<open>sep.join(parts)\<close>.\<close>

fun join :: "string \<Rightarrow> string list \<Rightarrow> string" where
  "join sep [] = []"
| "join sep [p] = p"
| "join sep (p # q # ps) = p @ sep @ join sep (q # ps)"

text \<open>\<^verbatim>\<open>msg.replace("\n", " ")\<close>.\<close>

definition replace_newlines :: "string \<Rightarrow> string" where
  "replace_newlines msg = map (\<lambda>c. if c = newline then CHR '' '' else c) msg"

text \<open>\<^verbatim>\<open>s.rfind(".")\<close>: the index of the last dot, \<open>None\<close> for Python's \<open>-1\<close>.\<close>

fun rfind_dot :: "string \<Rightarrow> nat option" where
  "rfind_dot [] = None"
| "rfind_dot (c # cs) =
     (case rfind_dot cs of
        Some i \<Rightarrow> Some (Suc i)
      | None \<Rightarrow> (if c = CHR ''.'' then Some 0 else None))"

subsection \<open>Paths (\<^verbatim>\<open>pathlib.PurePosixPath\<close>)\<close>

text \<open>A path is its root (\<^verbatim>\<open>""\<close>, \<^verbatim>\<open>"/"\<close> or \<^verbatim>\<open>"//"\<close>) and its components.\<close>

datatype path = Path (root: string) (parts: "string list")

text \<open>\<^verbatim>\<open>Path(s)\<close>: the root is split off as \<^verbatim>\<open>posixpath.splitroot\<close> does (exactly two
  leading slashes are kept, any other number is one), then empty and \<^verbatim>\<open>.\<close> components are
  dropped.\<close>

definition splitroot :: "string \<Rightarrow> string \<times> string" where
  "splitroot p =
     (if take 1 p \<noteq> ''/'' then ([], p)
      else if take 1 (drop 1 p) \<noteq> ''/'' \<or> take 1 (drop 2 p) = ''/'' then (''/'', drop 1 p)
      else (''//'', drop 2 p))"

definition parse_path :: "string \<Rightarrow> path" where
  "parse_path s =
     (case splitroot s of
        (r, rel) \<Rightarrow> Path r (filter (\<lambda>x. x \<noteq> [] \<and> x \<noteq> ''.'') (split_char CHR ''/'' rel)))"

text \<open>\<^verbatim>\<open>str(p)\<close>.\<close>

definition str_path :: "path \<Rightarrow> string" where
  "str_path p =
     (if root p = [] \<and> parts p = [] then ''.''
      else root p @ join ''/'' (parts p))"

text \<open>\<^verbatim>\<open>p.name\<close>: the final component, empty when there is none.\<close>

definition name :: "path \<Rightarrow> string" where
  "name p = (if parts p = [] then [] else last (parts p))"

text \<open>\<^verbatim>\<open>p.parent\<close>: the path without its final component; a path with no component is
  its own parent.\<close>

definition parent :: "path \<Rightarrow> path" where
  "parent p = Path (root p) (butlast (parts p))"

text \<open>\<^verbatim>\<open>p / key\<close> for a string \<open>key\<close>: an absolute key replaces \<open>p\<close>.\<close>

definition truediv :: "path \<Rightarrow> string \<Rightarrow> path" where
  "truediv p key =
     (let k = parse_path key
      in if root k \<noteq> [] then k else Path (root p) (parts p @ parts k))"

text \<open>\<^verbatim>\<open>p.suffix\<close>: the final component from its last dot on, when that dot is neither its
  first nor its last character; empty otherwise.\<close>

definition suffix :: "path \<Rightarrow> string" where
  "suffix p =
     (case rfind_dot (name p) of
        None \<Rightarrow> []
      | Some i \<Rightarrow> if 0 < i \<and> i < length (name p) - 1 then drop i (name p) else [])"

datatype oserror =
    FileNotFoundError path
  | IsADirectoryError path
  | NotADirectoryError path
  | FileExistsError path
  | SameFileError path path
  | OtherOSError string

datatype pyexc =
    OSError oserror
  | UnicodeDecodeError
  | ValueError string

text \<open>\<^verbatim>\<open>p.with_suffix(suf)\<close> for a suffix that is a dot and a name, as \<^verbatim>\<open>".cogsav"\<close> is: a
  path with an empty name raises \<^verbatim>\<open>ValueError\<close>; an old suffix is replaced, and the new
  one is appended when there is none.\<close>

definition with_suffix :: "path \<Rightarrow> string \<Rightarrow> pyexc + path" where
  "with_suffix p suf =
     (if name p = [] then Inl (ValueError (str_path p @ '' has an empty name''))
      else let old_suffix = suffix p;
               new_name = (if old_suffix = [] then name p @ suf
                           else take (length (name p) - length old_suffix) (name p) @ suf)
           in Inr (Path (root p) (butlast (parts p) @ [new_name])))"

text \<open>\<^verbatim>\<open>p.parents\<close>, nearest first, and \<^verbatim>\<open>p.relative_to(other)\<close>.\<close>

definition parents :: "path \<Rightarrow> path list" where
  "parents p = map (\<lambda>k. Path (root p) (take k (parts p))) (rev [0..<length (parts p)])"

definition relative_to :: "path \<Rightarrow> path \<Rightarrow> pyexc + path" where
  "relative_to p other =
     (if root other = root p \<and> take (length (parts other)) (parts p) = parts other
      then Inr (Path [] (drop (length (parts other)) (parts p)))
      else Inl (ValueError (str_path p @ '' is not in the subpath of '' @ str_path other)))"

subsection \<open>The clock (\<^verbatim>\<open>datetime.now()\<close> and \<^verbatim>\<open>strftime\<close>)\<close>

record datetime =
  year :: nat
  month :: nat
  day :: nat
  hour :: nat
  minute :: nat
  second :: nat

definition digit :: "nat \<Rightarrow> char" where
  "digit d = ''0123456789'' ! (d mod 10)"

text \<open>A field printed with \<^verbatim>\<open>%02d\<close>. The fields of a \<^verbatim>\<open>datetime\<close> other than the year are
  below 100, and the year is printed by \<^verbatim>\<open>%y\<close> modulo 100.\<close>

definition pad2 :: "nat \<Rightarrow> string" where
  "pad2 n = [digit (n div 10), digit n]"

text \<open>\<^verbatim>\<open>strftime("%H:%M:%S")\<close> and \<^verbatim>\<open>strftime("%y.%m.%d %H.%M")\<close>.\<close>

definition strftime_clock :: "datetime \<Rightarrow> string" where
  "strftime_clock t = pad2 (hour t) @ '':'' @ pad2 (minute t) @ '':'' @ pad2 (second t)"

definition strftime_stamp :: "datetime \<Rightarrow> string" where
  "strftime_stamp t =
     pad2 (year t mod 100) @ ''.'' @ pad2 (month t) @ ''.'' @ pad2 (day t) @ '' ''
       @ pad2 (hour t) @ ''.'' @ pad2 (minute t)"

subsection \<open>The environment: file system, clock, trace of file operations\<close>

datatype node = File string | Dir

datatype io_event =
    Stat path
  | Resolve path
  | Mkdir path
  | Scandir path
  | OpenRead path
  | Copy path path

record world =
  fs :: "(path \<times> node) list"
  resolve_fn :: "path \<Rightarrow> oserror + path"
  clock :: "nat \<Rightarrow> datetime"
  ticks :: nat
  io_log :: "io_event list"

definition lookup :: "world \<Rightarrow> path \<Rightarrow> node option" where
  "lookup w p = map_of (fs w) p"

definition trace :: "io_event \<Rightarrow> world \<Rightarrow> world" where
  "trace ev w = w\<lparr>io_log := io_log w @ [ev]\<rparr>"

text \<open>\<^verbatim>\<open>datetime.now()\<close>.\<close>

definition now :: "world \<Rightarrow> datetime \<times> world" where
  "now w = (clock w (ticks w), w\<lparr>ticks := Suc (ticks w)\<rparr>)"

text \<open>\<^verbatim>\<open>p.exists()\<close>.\<close>

definition path_exists :: "world \<Rightarrow> path \<Rightarrow> bool \<times> world" where
  "path_exists w p = (lookup w p \<noteq> None, trace (Stat p) w)"

text \<open>\<^verbatim>\<open>p.resolve()\<close>: the canonical absolute path, as the environment gives it.\<close>

definition resolve :: "world \<Rightarrow> path \<Rightarrow> (oserror + path) \<times> world" where
  "resolve w p = (resolve_fn w p, trace (Resolve p) w)"

text \<open>\<^verbatim>\<open>p.mkdir(exist_ok=True)\<close>: nothing to do for a directory that is there; a file of
  that name, a missing parent and a parent that is a file are errors.\<close>

definition mkdir_exist_ok :: "world \<Rightarrow> path \<Rightarrow> oserror option \<times> world" where
  "mkdir_exist_ok w p =
     (let w1 = trace (Mkdir p) w
      in case lookup w p of
           Some Dir \<Rightarrow> (None, w1)
         | Some (File _) \<Rightarrow> (Some (FileExistsError p), w1)
         | None \<Rightarrow>
             (case lookup w (parent p) of
                Some Dir \<Rightarrow> (None, w1\<lparr>fs := AList.update p Dir (fs w)\<rparr>)
              | Some (File _) \<Rightarrow> (Some (NotADirectoryError p), w1)
              | None \<Rightarrow> (Some (FileNotFoundError p), w1)))"

text \<open>The entries of a directory, in the table's order (the order of a directory scan is
  the file system's own).\<close>

definition entries :: "world \<Rightarrow> path \<Rightarrow> path list" where
  "entries w d = filter (\<lambda>q. parts q \<noteq> [] \<and> parent q = d) (map fst (fs w))"

text \<open>\<^verbatim>\<open>d.glob("*.cogsav")\<close>: the entries of \<open>d\<close> itself whose name matches; the pattern
  \<^verbatim>\<open>*.cogsav\<close> matches exactly the names that end with \<^verbatim>\<open>.cogsav\<close>. Nothing is found in
  what is not a directory.\<close>

definition glob_cogsav :: "world \<Rightarrow> path \<Rightarrow> path list \<times> world" where
  "glob_cogsav w d =
     (case lookup w d of
        Some Dir \<Rightarrow> (filter (\<lambda>q. endswith (name q) ''.cogsav'') (entries w d), trace (Scandir d) w)
      | _ \<Rightarrow> ([], trace (Scandir d) w))"

text \<open>\<^verbatim>\<open>shutil.copy2(src, dst)\<close>: a destination that is a directory stands for the file of
  the source's name inside it; copying a file onto itself, a source that is missing or a
  directory, and a destination that cannot be created are errors.\<close>

definition copy2 :: "world \<Rightarrow> path \<Rightarrow> path \<Rightarrow> oserror option \<times> world" where
  "copy2 w src dst =
     (let dst' = (if lookup w dst = Some Dir then truediv dst (name src) else dst);
          w1 = trace (Copy src dst') w
      in if src = dst' \<and> lookup w src \<noteq> None then (Some (SameFileError src dst'), w1)
         else case lookup w src of
                None \<Rightarrow> (Some (FileNotFoundError src), w1)
              | Some Dir \<Rightarrow> (Some (IsADirectoryError src), w1)
              | Some (File bytes) \<Rightarrow>
                  (case lookup w dst' of
                     Some Dir \<Rightarrow> (Some (IsADirectoryError dst'), w1)
                   | _ \<Rightarrow>
                       (case lookup w (parent dst') of
                          Some Dir \<Rightarrow> (None, w1\<lparr>fs := AList.update dst' (File bytes) (fs w)\<rparr>)
                        | Some (File _) \<Rightarrow> (Some (NotADirectoryError dst'), w1)
                        | None \<Rightarrow> (Some (FileNotFoundError dst'), w1))))"

subsection \<open>Reading a file as UTF-8 text\<close>

definition byte :: "char \<Rightarrow> nat" where
  "byte c = of_char c"

definition between :: "nat \<Rightarrow> nat \<Rightarrow> char \<Rightarrow> bool" where
  "between lo hi c = (lo \<le> byte c \<and> byte c \<le> hi)"

text \<open>The strict decoder accepts exactly the well-formed byte sequences: no overlong
  forms, no surrogates, nothing above U+10FFFF, no truncated sequence.\<close>

fun utf8_valid :: "string \<Rightarrow> bool" where
  "utf8_valid [] = True"
| "utf8_valid (b # bs) =
     (if byte b < 0x80 then utf8_valid bs
      else if between 0xC2 0xDF b then
        (case bs of
           c1 # r \<Rightarrow> between 0x80 0xBF c1 \<and> utf8_valid r
         | _ \<Rightarrow> False)
      else if between 0xE0 0xEF b then
        (case bs of
           c1 # c2 # r \<Rightarrow>
             between (if byte b = 0xE0 then 0xA0 else 0x80) (if byte b = 0xED then 0x9F else 0xBF) c1
               \<and> between 0x80 0xBF c2 \<and> utf8_valid r
         | _ \<Rightarrow> False)
      else if between 0xF0 0xF4 b then
        (case bs of
           c1 # c2 # c3 # r \<Rightarrow>
             between (if byte b = 0xF0 then 0x90 else 0x80) (if byte b = 0xF4 then 0x8F else 0xBF) c1
               \<and> between 0x80 0xBF c2 \<and> between 0x80 0xBF c3 \<and> utf8_valid r
         | _ \<Rightarrow> False)
      else False)"

text \<open>Text mode translates \<^verbatim>\<open>\r\n\<close> and a lone \<^verbatim>\<open>\r\<close> to \<^verbatim>\<open>\n\<close>.\<close>

fun universal_newlines :: "string \<Rightarrow> string" where
  "universal_newlines [] = []"
| "universal_newlines [c] = [if c = carriage_return then newline else c]"
| "universal_newlines (c # d # ds) =
     (if c = carriage_return \<and> d = newline then newline # universal_newlines ds
      else (if c = carriage_return then newline else c) # universal_newlines (d # ds))"

text \<open>\<^verbatim>\<open>with p.open("r", encoding="utf-8") as f: content = f.read()\<close>. Opening raises an
  \<^verbatim>\<open>OSError\<close> for a missing file or a directory; reading raises \<^verbatim>\<open>UnicodeDecodeError\<close>, which
  is not an \<^verbatim>\<open>OSError\<close>, for bytes that are not UTF-8.\<close>

definition read_text :: "world \<Rightarrow> path \<Rightarrow> (pyexc + string) \<times> world" where
  "read_text w p =
     (let w1 = trace (OpenRead p) w
      in case lookup w p of
           None \<Rightarrow> (Inl (OSError (FileNotFoundError p)), w1)
         | Some Dir \<Rightarrow> (Inl (OSError (IsADirectoryError p)), w1)
         | Some (File bytes) \<Rightarrow>
             if utf8_valid bytes then (Inr (universal_newlines bytes), w1)
             else (Inl UnicodeDecodeError, w1))"

subsection \<open>The two searches of \<^verbatim>\<open>_parse_save\<close>\<close>

text \<open>
  The program searches the content with
  \<^verbatim>\<open>re.search(r'"(?:name|firstname)"\s*:\s*"([^"]+)"', content)\<close> and with the same pattern
  for the single key \<^verbatim>\<open>sceneName\<close>. \<^verbatim>\<open>re.search\<close> returns the match that starts leftmost,
  and at one start the first one its backtracking finds. For this pattern the greedy
  repetitions leave nothing to backtrack into: a run of \<^verbatim>\<open>\s\<close> is followed by \<^verbatim>\<open>:\<close> or \<^verbatim>\<open>"\<close>,
  which are not white space, and the run \<^verbatim>\<open>[^"]+\<close> is followed by \<^verbatim>\<open>"\<close>, so only the
  longest run can be followed by what the pattern asks for. A match starts with \<^verbatim>\<open>"\<close>, an
  ASCII character, so trying every byte offset of the encoded text finds the same matches
  as trying every character offset.
\<close>

text \<open>\<^verbatim>\<open>\s\<close> on \<^verbatim>\<open>str\<close> is Unicode white space: U+0009 to U+000D, U+001C to U+0020, and, in
  UTF-8, U+0085 and U+00A0 (two bytes), U+1680, U+2000 to U+200A, U+2028, U+2029, U+202F,
  U+205F and U+3000 (three bytes). \<open>space_width\<close> is the number of bytes of the white-space
  character at the head of the text, 0 when there is none.\<close>

definition ascii_space :: "char \<Rightarrow> bool" where
  "ascii_space c =
     (c \<in> set [CHR 0x09, CHR 0x0A, CHR 0x0B, CHR 0x0C, CHR 0x0D,
               CHR 0x1C, CHR 0x1D, CHR 0x1E, CHR 0x1F, CHR 0x20])"

definition space_width :: "string \<Rightarrow> nat" where
  "space_width s =
     (case s of
        [] \<Rightarrow> 0
      | b0 # r \<Rightarrow>
          if ascii_space b0 then 1
          else if b0 = CHR 0xC2 \<and> (take 1 r = [CHR 0x85] \<or> take 1 r = [CHR 0xA0]) then 2
          else if b0 = CHR 0xE1 \<and> take 2 r = [CHR 0x9A, CHR 0x80] then 3
          else if b0 = CHR 0xE2 \<and> take 1 r = [CHR 0x80]
                  \<and> take 1 (drop 1 r) \<in> set (map (\<lambda>c. [c])
                       [CHR 0x80, CHR 0x81, CHR 0x82, CHR 0x83, CHR 0x84, CHR 0x85, CHR 0x86,
                        CHR 0x87, CHR 0x88, CHR 0x89, CHR 0x8A, CHR 0xA8, CHR 0xA9, CHR 0xAF]) then 3
          else if b0 = CHR 0xE2 \<and> take 2 r = [CHR 0x81, CHR 0x9F] then 3
          else if b0 = CHR 0xE3 \<and> take 2 r = [CHR 0x80, CHR 0x80] then 3
          else 0)"

text \<open>\<^verbatim>\<open>\s*\<close>: the text after its longest run of white space.\<close>

fun skip_space :: "string \<Rightarrow> string" where
  "skip_space [] = []"
| "skip_space (c # cs) =
     (if space_width (c # cs) = 0 then c # cs
      else skip_space (drop (space_width (c # cs) - 1) cs))"

text \<open>A text that is white space throughout: what \<^verbatim>\<open>\s*\<close> can match in full.\<close>

fun white_space :: "string \<Rightarrow> bool" where
  "white_space [] = True"
| "white_space (c # cs) =
     (space_width (c # cs) \<noteq> 0 \<and> white_space (drop (space_width (c # cs) - 1) cs))"

text \<open>A literal of the pattern: the text after it, when the text starts with it.\<close>

definition literal :: "string \<Rightarrow> string \<Rightarrow> string option" where
  "literal lit s = (if startswith s lit then Some (drop (length lit) s) else None)"

text \<open>\<^verbatim>\<open>"([^"]+)"\<close>: the group is the longest run without a quote; it must not be empty and
  a quote must follow it.\<close>

definition quoted_group :: "string \<Rightarrow> string option" where
  "quoted_group s =
     (case literal [dquote] s of
        None \<Rightarrow> None
      | Some r \<Rightarrow>
          let g = takeWhile (\<lambda>c. c \<noteq> dquote) r;
              rest = dropWhile (\<lambda>c. c \<noteq> dquote) r
          in if g \<noteq> [] \<and> rest \<noteq> [] then Some g else None)"

text \<open>\<^verbatim>\<open>"\s*:\s*"([^"]+)"\<close>, what follows the key.\<close>

definition after_key :: "string \<Rightarrow> string option" where
  "after_key s =
     (case literal [dquote] s of
        None \<Rightarrow> None
      | Some r1 \<Rightarrow>
          (case literal '':'' (skip_space r1) of
             None \<Rightarrow> None
           | Some r2 \<Rightarrow> quoted_group (skip_space r2)))"

text \<open>\<^verbatim>\<open>(?:k1|k2|...)\<close> and the rest of the pattern: the alternatives in their order, the
  next one when the pattern fails with this one.\<close>

fun alternatives :: "string list \<Rightarrow> string \<Rightarrow> string option" where
  "alternatives [] s = None"
| "alternatives (k # ks) s =
     (case literal k s of
        None \<Rightarrow> alternatives ks s
      | Some r \<Rightarrow>
          (case after_key r of
             None \<Rightarrow> alternatives ks s
           | Some g \<Rightarrow> Some g))"

text \<open>The pattern matched at the head of the text: group 1.\<close>

definition match_here :: "string list \<Rightarrow> string \<Rightarrow> string option" where
  "match_here keys s =
     (case literal [dquote] s of
        None \<Rightarrow> None
      | Some r \<Rightarrow> alternatives keys r)"

text \<open>\<^verbatim>\<open>re.search\<close>: the match at the leftmost offset that has one.\<close>

fun re_search :: "string list \<Rightarrow> string \<Rightarrow> string option" where
  "re_search keys [] = match_here keys []"
| "re_search keys (c # cs) =
     (case match_here keys (c # cs) of
        Some g \<Rightarrow> Some g
      | None \<Rightarrow> re_search keys cs)"

definition name_match :: "string \<Rightarrow> string option" where
  "name_match content = re_search [''name'', ''firstname''] content"

definition scene_match :: "string \<Rightarrow> string option" where
  "scene_match content = re_search [''sceneName''] content"

subsection \<open>The application object and its messages\<close>

record cogsaver =
  settings :: "string \<rightharpoonup> string"
  save_location :: "path option"
  save_folder :: "path option"
  quick_save_location :: "path option"
  saves_list :: "path list"
  main_message :: "string list"
  window_title :: string

text \<open>An item of the message list, \<^verbatim>\<open>f"[{timestamp}] {formatted_msg}"\<close>.\<close>

definition message_item :: "datetime \<Rightarrow> string \<Rightarrow> string" where
  "message_item t msg = ''['' @ strftime_clock t @ ''] '' @ replace_newlines msg"

definition append_message :: "string \<Rightarrow> cogsaver \<times> world \<Rightarrow> cogsaver \<times> world" where
  "append_message msg sw =
     (case sw of
        (s, w) \<Rightarrow>
          (case now w of
             (t, w1) \<Rightarrow> (s\<lparr>main_message := main_message s @ [message_item t msg]\<rparr>, w1)))"

text \<open>The texts of the messages the properties below speak of.\<close>

definition no_live_save_selected :: string where
  "no_live_save_selected =
     ''ERROR! Please select your game'' @ [squote] @ ''s save file by clicking ''
       @ [squote] @ ''Select Game'' @ [squote]"

definition no_game_selected :: string where
  "no_game_selected =
     ''No game selected! Please select a save file location by'' @ [newline]
       @ ''    clicking '' @ [dquote] @ ''Select Game'' @ [dquote] @ '' and choosing a'' @ [newline]
       @ ''    storePS<gamename>PSstate file!''"

definition invalid_save_file_selected :: string where
  "invalid_save_file_selected =
     [newline, newline]
       @ ''ERROR: Please select only a '' @ [squote] @ ''storePS<gamename>PSstate'' @ [squote]
       @ '' file.'' @ [newline]
       @ ''This file may be found in:'' @ [newline]
       @ [squote, backslash] @ ''Steam'' @ [backslash] @ ''userdata'' @ [backslash]
       @ ''<yourSteamID#>'' @ [backslash] @ ''<SteamGame#>'' @ [backslash] @ ''remote''
       @ [squote, newline]
       @ ''The file selected MUST be the one that ends with '' @ [dquote] @ ''PSstate''
       @ [dquote] @ '' only!''"

text \<open>\<^verbatim>\<open>str(e)\<close> for an \<^verbatim>\<open>OSError\<close>, in the wording of Linux.\<close>

definition quoted :: "string \<Rightarrow> string" where
  "quoted s = [squote] @ s @ [squote]"

fun str_oserror :: "oserror \<Rightarrow> string" where
  "str_oserror (FileNotFoundError p) = ''[Errno 2] No such file or directory: '' @ quoted (str_path p)"
| "str_oserror (IsADirectoryError p) = ''[Errno 21] Is a directory: '' @ quoted (str_path p)"
| "str_oserror (NotADirectoryError p) = ''[Errno 20] Not a directory: '' @ quoted (str_path p)"
| "str_oserror (FileExistsError p) = ''[Errno 17] File exists: '' @ quoted (str_path p)"
| "str_oserror (SameFileError p q) =
     quoted (str_path p) @ '' and '' @ quoted (str_path q) @ '' are the same file''"
| "str_oserror (OtherOSError m) = m"

text \<open>\<^verbatim>\<open>str(n)\<close> for a length.\<close>

fun str_nat :: "nat \<Rightarrow> string" where
  "str_nat n = (if n < 10 then [digit n] else str_nat (n div 10) @ [digit n])"

declare str_nat.simps [simp del]

text \<open>\<^verbatim>\<open>f"{p}"\<close> for an optional path.\<close>

definition str_opt_path :: "path option \<Rightarrow> string" where
  "str_opt_path p = (case p of None \<Rightarrow> ''None'' | Some q \<Rightarrow> str_path q)"

subsection \<open>\<^verbatim>\<open>_generate_saves_list\<close> and \<^verbatim>\<open>_update_game\<close>\<close>

definition generate_saves_list :: "cogsaver \<times> world \<Rightarrow> cogsaver \<times> world" where
  "generate_saves_list sw =
     (case sw of
        (s, w) \<Rightarrow>
          (case save_folder s of
             None \<Rightarrow> (s, w)
           | Some folder \<Rightarrow>
               (case path_exists w folder of
                  (ex, w1) \<Rightarrow>
                    if ex then
                      (case glob_cogsav w1 folder of
                         (found, w2) \<Rightarrow>
                           append_message (''Found '' @ str_nat (length found) @ '' files.'')
                             (foldl (\<lambda>sw' save_file.
                                        append_message (''Found file: '' @ name save_file) sw')
                                (s\<lparr>saves_list := found\<rparr>, w2) found))
                    else (s, w1))))"

text \<open>The handler \<^verbatim>\<open>except OSError as e\<close> of \<^verbatim>\<open>_update_game\<close>.\<close>

definition update_game_failed :: "oserror \<Rightarrow> cogsaver \<times> world \<Rightarrow> cogsaver \<times> world" where
  "update_game_failed e sw =
     append_message (''Failed to use '' @ str_opt_path (save_location (fst sw)) @ '' as a base file!'')
       (append_message (''Error: '' @ str_oserror e) sw)"

definition update_game :: "cogsaver \<times> world \<Rightarrow> cogsaver \<times> world" where
  "update_game sw =
     (case sw of
        (s, w) \<Rightarrow>
          (case save_location s of
             None \<Rightarrow> append_message no_game_selected (s, w)
           | Some loc \<Rightarrow>
               (case path_exists w loc of
                  (ex, w1) \<Rightarrow>
                    if \<not> ex then append_message no_game_selected (s, w1)
                    else
                      (case resolve w1 loc of
                         (Inl e, w2) \<Rightarrow> update_game_failed e (s, w2)
                       | (Inr loc', w2) \<Rightarrow>
                           let folder = truediv (parent loc') ''saves'';
                               s1 = s\<lparr>save_location := Some loc', save_folder := Some folder\<rparr>
                           in (case mkdir_exist_ok w2 folder of
                                 (Some e, w3) \<Rightarrow> update_game_failed e (s1, w3)
                               | (None, w3) \<Rightarrow>
                                   (case append_message (''Custom saves directory: '' @ str_path folder)
                                           (s1, w3) of
                                      (s2, w4) \<Rightarrow>
                                        let quick = truediv (parent loc') ''quicksave.cogsav'';
                                            s3 = s2\<lparr>quick_save_location := Some quick\<rparr>
                                        in generate_saves_list
                                             (append_message (''Quicksave file: '' @ str_path quick)
                                                (s3, w4))))))))"

subsection \<open>\<^verbatim>\<open>_load_preferences\<close> and \<^verbatim>\<open>__init__\<close>\<close>

definition load_preferences :: "cogsaver \<Rightarrow> cogsaver" where
  "load_preferences s =
     (case settings s ''saveLocation'' of
        None \<Rightarrow> s
      | Some save_location_str \<Rightarrow>
          if save_location_str \<noteq> [] then s\<lparr>save_location := Some (parse_path save_location_str)\<rparr>
          else s)"

definition init :: "(string \<rightharpoonup> string) \<Rightarrow> world \<Rightarrow> cogsaver \<times> world" where
  "init stored w =
     update_game
       (load_preferences
          \<lparr>settings = stored, save_location = None, save_folder = None,
           quick_save_location = None, saves_list = [], main_message = [],
           window_title = ''CoG Saver''\<rparr>, w)"

subsection \<open>\<^verbatim>\<open>_change_game\<close>\<close>

text \<open>\<open>getOpenFileName\<close> is the dialog: it is given the directory to start in and returns
  the chosen file, or the empty string.\<close>

definition change_game :: "(string \<Rightarrow> string) \<Rightarrow> cogsaver \<times> world \<Rightarrow> cogsaver \<times> world" where
  "change_game getOpenFileName sw =
     (case sw of
        (s, w) \<Rightarrow>
          let initial_dir = (case save_location s of
                               Some loc \<Rightarrow> str_path (parent loc)
                             | None \<Rightarrow> []);
              file_path = getOpenFileName initial_dir
          in if file_path \<noteq> [] then
               let selected_file = parse_path file_path
               in (case append_message (''Selected '' @ str_path selected_file) (s, w) of
                     (s1, w1) \<Rightarrow>
                       if endswith (name selected_file) ''PSstate'' then
                         (case update_game
                                 (s1\<lparr>save_location := Some selected_file,
                                     settings := (settings s1)(''saveLocation'' \<mapsto> str_path selected_file)\<rparr>,
                                  w1) of
                            (s2, w2) \<Rightarrow>
                              (s2\<lparr>window_title := ''CoG Saver - '' @ name selected_file\<rparr>, w2))
                       else append_message invalid_save_file_selected
                              (s1\<lparr>save_location := None\<rparr>, w1))
             else (s, w))"

subsection \<open>\<^verbatim>\<open>_quick_save\<close> and \<^verbatim>\<open>_quick_load\<close>\<close>

definition quick_save :: "cogsaver \<times> world \<Rightarrow> cogsaver \<times> world" where
  "quick_save sw =
     (case sw of
        (s, w) \<Rightarrow>
          (case save_location s of
             None \<Rightarrow> append_message no_live_save_selected (s, w)
           | Some loc \<Rightarrow>
               (case quick_save_location s of
                  None \<Rightarrow> (s, w)
                | Some quick \<Rightarrow>
                    (case copy2 w loc quick of
                       (None, w1) \<Rightarrow> append_message ''Quicksaved'' (s, w1)
                     | (Some e, w1) \<Rightarrow>
                         append_message ''Quicksave failed''
                           (append_message (''Error: '' @ str_oserror e) (s, w1))))))"

definition quick_load :: "cogsaver \<times> world \<Rightarrow> cogsaver \<times> world" where
  "quick_load sw =
     (case sw of
        (s, w) \<Rightarrow>
          (case save_location s of
             None \<Rightarrow> append_message no_live_save_selected (s, w)
           | Some loc \<Rightarrow>
               (case quick_save_location s of
                  None \<Rightarrow> append_message ''No quicksave found'' (s, w)
                | Some quick \<Rightarrow>
                    (case path_exists w quick of
                       (ex, w1) \<Rightarrow>
                         if ex then
                           (case copy2 w1 quick loc of
                              (None, w2) \<Rightarrow> append_message ''Loaded'' (s, w2)
                            | (Some e, w2) \<Rightarrow>
                                append_message ''Load failed''
                                  (append_message (''Error: '' @ str_oserror e) (s, w2)))
                         else append_message ''No quicksave found'' (s, w1)))))"

subsection \<open>\<^verbatim>\<open>_parse_save\<close>\<close>

text \<open>An operation that can raise returns what it raised or its value, and the state it
  left behind in either case.\<close>

text \<open>\<^verbatim>\<open>if name:\<close> for an optional string: there is one and it is not empty.\<close>

definition truthy :: "string option \<Rightarrow> string list" where
  "truthy v = (case v of None \<Rightarrow> [] | Some x \<Rightarrow> if x \<noteq> [] then [x] else [])"

text \<open>From \<^verbatim>\<open>timestamp = ...\<close> to the end of \<^verbatim>\<open>_parse_save\<close>.\<close>

definition suggest :: "string option \<Rightarrow> string option \<Rightarrow> cogsaver \<times> world \<Rightarrow> string \<times> cogsaver \<times> world" where
  "suggest name_found scene_found sw =
     (case sw of
        (s, w) \<Rightarrow>
          (case now w of
             (t, w1) \<Rightarrow>
               let timestamp = strftime_stamp t;
                   return_val = join '' '' (truthy name_found @ [timestamp] @ truthy scene_found)
               in (return_val, append_message return_val (s, w1))))"

definition parse_save :: "cogsaver \<times> world \<Rightarrow> (pyexc + string) \<times> cogsaver \<times> world" where
  "parse_save sw =
     (case append_message ''Parsing current save...'' sw of
        (s, w) \<Rightarrow>
          (case save_location s of
             None \<Rightarrow> (case now w of (t, w1) \<Rightarrow> (Inr (strftime_stamp t), s, w1))
           | Some loc \<Rightarrow>
               (case read_text w loc of
                  (Inr content, w1) \<Rightarrow>
                    (case suggest (name_match content) (scene_match content) (s, w1) of
                       (return_val, sw') \<Rightarrow> (Inr return_val, sw'))
                | (Inl (OSError e), w1) \<Rightarrow>
                    (case suggest None None
                            (append_message (''Error parsing save: '' @ str_oserror e) (s, w1)) of
                       (return_val, sw') \<Rightarrow> (Inr return_val, sw'))
                | (Inl exc, w1) \<Rightarrow> (Inl exc, s, w1))))"

subsection \<open>\<^verbatim>\<open>_create_perm_save\<close> and \<^verbatim>\<open>_load_perm_save\<close>\<close>

text \<open>The file a save is written to, from the string the dialog returned:
  \<^verbatim>\<open>save_file = Path(save_path)\<close>, and \<^verbatim>\<open>save_file.with_suffix(".cogsav")\<close> in its place
  when \<^verbatim>\<open>save_file.suffix\<close> is empty.\<close>

definition archive_target :: "string \<Rightarrow> pyexc + path" where
  "archive_target save_path =
     (let save_file = parse_path save_path
      in if suffix save_file = [] then with_suffix save_file ''.cogsav'' else Inr save_file)"

text \<open>The \<^verbatim>\<open>try\<close> statement of \<^verbatim>\<open>_create_perm_save\<close>: the live save is copied to the file, and
  the copy or its failure is reported.\<close>

definition write_archive_save :: "path \<Rightarrow> path \<Rightarrow> cogsaver \<times> world \<Rightarrow> cogsaver \<times> world" where
  "write_archive_save loc save_file sw =
     (case sw of
        (s1, w1) \<Rightarrow>
          (case copy2 w1 loc save_file of
             (None, w2) \<Rightarrow> append_message (''Saved to '' @ str_path save_file) (s1, w2)
           | (Some e, w2) \<Rightarrow>
               append_message ''Save failed''
                 (append_message (''Error: '' @ str_oserror e) (s1, w2))))"

definition create_perm_save :: "(string \<Rightarrow> string) \<Rightarrow> cogsaver \<times> world \<Rightarrow> pyexc option \<times> cogsaver \<times> world" where
  "create_perm_save getSaveFileName sw =
     (case sw of
        (s, w) \<Rightarrow>
          (case save_location s of
             None \<Rightarrow> (None, append_message no_live_save_selected (s, w))
           | Some loc \<Rightarrow>
               (case parse_save (s, w) of
                  (Inl exc, sw1) \<Rightarrow> (Some exc, sw1)
                | (Inr suggested_name, s1, w1) \<Rightarrow>
                    let save_path = getSaveFileName
                          (case save_folder s1 of
                             Some folder \<Rightarrow> str_path (truediv folder suggested_name)
                           | None \<Rightarrow> suggested_name)
                    in if save_path \<noteq> [] then
                         (case archive_target save_path of
                            Inl exc \<Rightarrow> (Some exc, s1, w1)
                          | Inr save_file \<Rightarrow> (None, write_archive_save loc save_file (s1, w1)))
                       else (None, s1, w1))))"

definition load_perm_save :: "(string \<Rightarrow> string) \<Rightarrow> cogsaver \<times> world \<Rightarrow> pyexc option \<times> cogsaver \<times> world" where
  "load_perm_save getOpenFileName sw =
     (case sw of
        (s, w) \<Rightarrow>
          (case save_location s of
             None \<Rightarrow> (None, append_message no_live_save_selected (s, w))
           | Some loc \<Rightarrow>
               let save_path = getOpenFileName
                     (case save_folder s of Some folder \<Rightarrow> str_path folder | None \<Rightarrow> [])
               in if save_path \<noteq> [] then
                    let save_file = parse_path save_path
                    in (case copy2 w save_file loc of
                          (None, w1) \<Rightarrow>
                            (case (case save_folder s of
                                     Some folder \<Rightarrow>
                                       if folder \<in> set (parents save_file)
                                       then relative_to save_file (parent folder)
                                       else Inr save_file
                                   | None \<Rightarrow> Inr save_file) of
                               Inl exc \<Rightarrow> (Some exc, s, w1)
                             | Inr display_path \<Rightarrow>
                                 (None, append_message (''Loaded: '' @ str_path display_path) (s, w1)))
                        | (Some e, w1) \<Rightarrow>
                            (None, append_message ''Error loading save''
                                     (append_message (''Error: '' @ str_oserror e) (s, w1))))
                  else (None, s, w)))"

subsection \<open>Example states\<close>

definition demo_clock :: "nat \<Rightarrow> datetime" where
  "demo_clock n = \<lparr>year = 2026, month = 11, day = 4, hour = 9, minute = 5, second = n mod 60\<rparr>"

definition unselected :: cogsaver where
  "unselected =
     \<lparr>settings = Map.empty, save_location = None, save_folder = None,
      quick_save_location = None, saves_list = [], main_message = [],
      window_title = ''CoG Saver''\<rparr>"

definition empty_world :: world where
  "empty_world =
     \<lparr>fs = [(Path ''/'' [], Dir)], resolve_fn = Inr, clock = demo_clock, ticks = 0, io_log = []\<rparr>"

text \<open>A game directory with a live save, an archive directory holding two saves and one
  other file, and no quick save yet; and the application after that live save was
  selected.\<close>

definition live_path :: path where
  "live_path = Path ''/'' [''g'', ''storePSdemoPSstate'']"

definition live_content :: string where
  "live_content =
     ''{'' @ [dquote] @ ''name'' @ [dquote] @ '': '' @ [dquote] @ ''Avery'' @ [dquote] @ '', ''
       @ [dquote] @ ''sceneName'' @ [dquote] @ '': '' @ [dquote] @ ''chapter1'' @ [dquote] @ ''}''"

definition game_world :: world where
  "game_world =
     \<lparr>fs = [(Path ''/'' [], Dir),
            (Path ''/'' [''g''], Dir),
            (live_path, File live_content),
            (Path ''/'' [''g'', ''saves''], Dir),
            (Path ''/'' [''g'', ''saves'', ''a.cogsav''], File ''A''),
            (Path ''/'' [''g'', ''saves'', ''c.txt''], File ''C''),
            (Path ''/'' [''g'', ''saves'', ''b.cogsav''], File ''B'')],
      resolve_fn = Inr, clock = demo_clock, ticks = 0, io_log = []\<rparr>"

definition selected :: cogsaver where
  "selected =
     \<lparr>settings = [''saveLocation'' \<mapsto> ''/g/storePSdemoPSstate''],
      save_location = Some live_path,
      save_folder = Some (Path ''/'' [''g'', ''saves'']),
      quick_save_location = Some (Path ''/'' [''g'', ''quicksave.cogsav'']),
      saves_list = [Path ''/'' [''g'', ''saves'', ''a.cogsav''],
                    Path ''/'' [''g'', ''saves'', ''b.cogsav'']],
      main_message = [],
      window_title = ''CoG Saver - storePSdemoPSstate''\<rparr>"

text \<open>The same game directory where a regular file named \<^verbatim>\<open>saves\<close> stands in the place of
  the archive directory.\<close>

definition blocked_world :: world where
  "blocked_world =
     \<lparr>fs = [(Path ''/'' [], Dir),
            (Path ''/'' [''g''], Dir),
            (live_path, File live_content),
            (Path ''/'' [''g'', ''saves''], File ''not a directory'')],
      resolve_fn = Inr, clock = demo_clock, ticks = 0, io_log = []\<rparr>"

text \<open>The same game directory with a live save that is not UTF-8: the single byte
  \<^verbatim>\<open>0xFF\<close>.\<close>

definition corrupt_world :: world where
  "corrupt_world =
     \<lparr>fs = [(Path ''/'' [], Dir),
            (Path ''/'' [''g''], Dir),
            (live_path, File [CHR 0xFF]),
            (Path ''/'' [''g'', ''saves''], Dir)],
      resolve_fn = Inr, clock = demo_clock, ticks = 0, io_log = []\<rparr>"

text \<open>A content with a \<^verbatim>\<open>firstname\<close> field before a \<^verbatim>\<open>name\<close> field; the same with
  an em space (U+2003) before the colon and a no-break space (U+00A0) and a newline after
  it; and the text of a field: the quoted key, white space, a colon, white space, the quoted
  value.\<close>

definition two_names_content :: string where
  "two_names_content =
     ''{'' @ [dquote] @ ''firstname'' @ [dquote] @ '': '' @ [dquote] @ ''Al'' @ [dquote] @ '', ''
       @ [dquote] @ ''name'' @ [dquote] @ '': '' @ [dquote] @ ''Bo'' @ [dquote] @ ''}''"

definition spaced_names_content :: string where
  "spaced_names_content =
     ''{'' @ [dquote] @ ''firstname'' @ [dquote] @ [CHR 0xE2, CHR 0x80, CHR 0x83] @ '':''
       @ [CHR 0xC2, CHR 0xA0, CHR 0x0A] @ [dquote] @ ''Al'' @ [dquote] @ '', ''
       @ [dquote] @ ''name'' @ [dquote] @ '': '' @ [dquote] @ ''Bo'' @ [dquote] @ ''}''"

definition field_text :: "string \<Rightarrow> string \<Rightarrow> string \<Rightarrow> string \<Rightarrow> string" where
  "field_text key ws1 ws2 v =
     [dquote] @ key @ [dquote] @ ws1 @ '':'' @ ws2 @ [dquote] @ v @ [dquote]"


text \<open>Two game directories; in the second a regular file named \<^verbatim>\<open>saves\<close> stands in the
  place of the archive directory.\<close>

definition two_games_world :: world where
  "two_games_world =
     \<lparr>fs = [(Path ''/'' [], Dir),
            (Path ''/'' [''g''], Dir),
            (live_path, File live_content),
            (Path ''/'' [''g'', ''saves''], Dir),
            (Path ''/'' [''g'', ''saves'', ''a.cogsav''], File ''A''),
            (Path ''/'' [''g'', ''saves'', ''b.cogsav''], File ''B''),
            (Path ''/'' [''h''], Dir),
            (Path ''/'' [''h'', ''storePSotherPSstate''], File ''{}''),
            (Path ''/'' [''h'', ''saves''], File ''not a directory'')],
      resolve_fn = Inr, clock = demo_clock, ticks = 0, io_log = []\<rparr>"

text \<open>A path with \<^verbatim>\<open>.cogsav\<close> appended to its final component.\<close>

definition appended :: "path \<Rightarrow> path" where
  "appended p = Path (root p) (butlast (parts p) @ [name p @ ''.cogsav''])"

section \<open>Properties\<close>

subsection \<open>Unfolding the model\<close>

lemmas path_defs = parse_path_def splitroot_def truediv_def parent_def name_def str_path_def
lemmas world_defs = lookup_def trace_def path_exists_def resolve_def mkdir_exist_ok_def
  glob_cogsav_def entries_def copy2_def read_text_def now_def

lemmas regex_defs = name_match_def scene_match_def match_here_def after_key_def quoted_group_def
  literal_def startswith_def space_width_def ascii_space_def dquote_def

subsection \<open>Messages\<close>

lemma append_message_eq:
  "append_message msg (s, w) =
     (s\<lparr>main_message := main_message s @ [message_item (clock w (ticks w)) msg]\<rparr>,
      w\<lparr>ticks := Suc (ticks w)\<rparr>)"
  by (simp add: append_message_def now_def)

subsection \<open>Transfers without a live save\<close>

text \<open>
  C3. When no live save is selected, each of the four transfer operations (quick save,
  quick load, create archive save, load archive save) only appends the message that asks
  the user to select a game: the table of files is as it was, the trace of file operations
  has no new entry, and no dialog is consulted.
\<close>

theorem transfers_need_live_save:
  assumes "save_location s = None"
  shows "quick_save (s, w) = append_message no_live_save_selected (s, w)
       \<and> quick_load (s, w) = append_message no_live_save_selected (s, w)
       \<and> create_perm_save getSaveFileName (s, w) = (None, append_message no_live_save_selected (s, w))
       \<and> load_perm_save getOpenFileName (s, w) = (None, append_message no_live_save_selected (s, w))
       \<and> fs (snd (append_message no_live_save_selected (s, w))) = fs w
       \<and> io_log (snd (append_message no_live_save_selected (s, w))) = io_log w
       \<and> main_message (fst (append_message no_live_save_selected (s, w)))
           = main_message s @ [message_item (clock w (ticks w)) no_live_save_selected]"
  using assms
  by (simp add: quick_save_def quick_load_def create_perm_save_def load_perm_save_def
      append_message_eq)

theorem transfers_need_live_save_witness:
  "save_location unselected = None
   \<and> io_log (snd (quick_save (unselected, empty_world))) = []
   \<and> io_log (snd (quick_load (unselected, empty_world))) = []
   \<and> io_log (snd (snd (create_perm_save (\<lambda>p. p) (unselected, empty_world)))) = []
   \<and> io_log (snd (snd (load_perm_save (\<lambda>p. ''/x.cogsav'') (unselected, empty_world)))) = []"
  using transfers_need_live_save [of unselected empty_world "\<lambda>p. p" "\<lambda>p. ''/x.cogsav''"]
  by (simp add: unselected_def empty_world_def)

subsection \<open>Files after a file operation\<close>

lemma lookup_trace [simp]: "lookup (trace ev w) p = lookup w p"
  by (simp add: lookup_def trace_def)

lemma lookup_ticks [simp]: "lookup (w\<lparr>ticks := n\<rparr>) p = lookup w p"
  by (simp add: lookup_def)

lemma lookup_fs_update [simp]:
  "lookup (w\<lparr>fs := AList.update q v (fs w')\<rparr>) p = (if p = q then Some v else lookup w' p)"
  by (simp add: lookup_def update_conv')

lemma copy2_succeeded:
  assumes "copy2 w src dst = (None, w')"
  shows "\<exists>bytes dst'. lookup w src = Some (File bytes)
           \<and> dst' = (if lookup w dst = Some Dir then truediv dst (name src) else dst)
           \<and> src \<noteq> dst' \<and> lookup w dst' \<noteq> Some Dir
           \<and> (\<forall>p. lookup w' p = (if p = dst' then Some (File bytes) else lookup w p))"
  using assms
  by (auto simp: copy2_def Let_def trace_def split: if_splits option.splits node.splits)

subsection \<open>Quick load without a quick save\<close>

text \<open>
  C4. When a live save is selected and nothing exists at the quick-save path (or no
  quick-save path was derived), quick load appends the message \<^verbatim>\<open>No quicksave found\<close> and
  nothing else, copies nothing (the only file operation is the test for existence), and
  leaves the table of files, hence the content of the live save, as it was.
\<close>

theorem quick_load_without_quick_save:
  assumes "save_location s = Some loc"
      and "\<forall>quick. quick_save_location s = Some quick \<longrightarrow> lookup w quick = None"
  shows "main_message (fst (quick_load (s, w)))
           = main_message s @ [message_item (clock w (ticks w)) ''No quicksave found'']
       \<and> fs (snd (quick_load (s, w))) = fs w
       \<and> lookup (snd (quick_load (s, w))) loc = lookup w loc
       \<and> io_log (snd (quick_load (s, w)))
           = io_log w @ (case quick_save_location s of None \<Rightarrow> [] | Some quick \<Rightarrow> [Stat quick])"
  using assms
  by (cases "quick_save_location s")
     (simp_all add: quick_load_def append_message_eq path_exists_def trace_def lookup_def)

theorem quick_load_without_quick_save_witness:
  "save_location selected = Some live_path
   \<and> quick_save_location selected = Some (Path ''/'' [''g'', ''quicksave.cogsav''])
   \<and> lookup game_world (Path ''/'' [''g'', ''quicksave.cogsav'']) = None
   \<and> main_message (fst (quick_load (selected, game_world)))
        = [message_item (demo_clock 0) ''No quicksave found'']
   \<and> fs (snd (quick_load (selected, game_world))) = fs game_world
   \<and> io_log (snd (quick_load (selected, game_world)))
        = [Stat (Path ''/'' [''g'', ''quicksave.cogsav''])]"
  using quick_load_without_quick_save [of selected live_path game_world]
  by (simp add: selected_def game_world_def lookup_def live_path_def)

subsection \<open>Quick save, then quick load\<close>

text \<open>
  C5. With a live save selected and a quick-save path derived, if quick save reports
  \<^verbatim>\<open>Quicksaved\<close> (its copy succeeded) and quick load, run next on the state and files that
  quick save left, reports \<^verbatim>\<open>Loaded\<close> (its copy succeeded), then the live save is a file
  whose bytes after the quick load are its bytes before the quick save.
\<close>

theorem quick_save_quick_load_round_trip:
  assumes live: "save_location s = Some loc"
    and quick: "quick_save_location s = Some quick"
    and save: "quick_save (s, w) = (s1, w1)"
    and saved: "main_message s1 = main_message s @ [message_item (clock w (ticks w)) ''Quicksaved'']"
    and load: "quick_load (s1, w1) = (s2, w2)"
    and loaded: "main_message s2 = main_message s1 @ [message_item (clock w1 (ticks w1)) ''Loaded'']"
  shows "\<exists>bytes. lookup w loc = Some (File bytes) \<and> lookup w2 loc = Some (File bytes)"
proof -
  obtain r wa where c1: "copy2 w loc quick = (r, wa)"
    by (cases "copy2 w loc quick")
  have r: "r = None"
  proof (cases r)
    case (Some e)
    with live quick save c1 saved show ?thesis
      by (auto simp: quick_save_def append_message_eq)
  qed simp
  from live quick save c1 r have s1: "s1 = s\<lparr>main_message := main_message s @ [message_item (clock wa (ticks wa)) ''Quicksaved'']\<rparr>"
    and w1: "w1 = wa\<lparr>ticks := Suc (ticks wa)\<rparr>"
    by (auto simp: quick_save_def append_message_eq)
  from copy2_succeeded [OF c1 [unfolded r]]
  obtain bytes dst' where src: "lookup w loc = Some (File bytes)"
    and dst': "dst' = (if lookup w quick = Some Dir then truediv quick (name loc) else quick)"
    and ne: "loc \<noteq> dst'"
    and wa: "\<And>p. lookup wa p = (if p = dst' then Some (File bytes) else lookup w p)"
    by blast
  have live1: "save_location s1 = Some loc" and quick1: "quick_save_location s1 = Some quick"
    using live quick s1 by simp_all
  have look1: "\<And>p. lookup w1 p = lookup wa p"
    using w1 by simp
  have ex: "lookup w1 quick \<noteq> None"
  proof
    assume "lookup w1 quick = None"
    with live1 quick1 load loaded show False
      by (auto simp: quick_load_def path_exists_def append_message_eq message_item_def
          replace_newlines_def newline_def trace_def)
  qed
  obtain r' wb where c2: "copy2 (trace (Stat quick) w1) quick loc = (r', wb)"
    by (cases "copy2 (trace (Stat quick) w1) quick loc")
  have r': "r' = None"
  proof (cases r')
    case (Some e)
    with live1 quick1 load c2 loaded ex show ?thesis
      by (auto simp: quick_load_def path_exists_def append_message_eq)
  qed simp
  from live1 quick1 load c2 r' ex have w2: "w2 = wb\<lparr>ticks := Suc (ticks wb)\<rparr>"
    by (auto simp: quick_load_def path_exists_def append_message_eq)
  from copy2_succeeded [OF c2 [unfolded r']]
  obtain bytes' dst'' where src2: "lookup w1 quick = Some (File bytes')"
    and dst'': "dst'' = (if lookup w1 loc = Some Dir then truediv loc (name quick) else loc)"
    and wb: "\<And>p. lookup wb p = (if p = dst'' then Some (File bytes') else lookup w1 p)"
    by auto
  have loc1: "lookup w1 loc = Some (File bytes)"
    using look1 wa ne src by simp
  then have "dst'' = loc"
    using dst'' by simp
  moreover have "bytes' = bytes"
  proof (cases "quick = dst'")
    case True
    with src2 look1 wa show ?thesis by simp
  next
    case False
    with dst' have "lookup w quick = Some Dir" by (auto split: if_splits)
    with False src2 look1 wa show ?thesis by simp
  qed
  ultimately have "lookup w2 loc = Some (File bytes)"
    using w2 wb by simp
  with src show ?thesis by blast
qed


theorem quick_save_quick_load_round_trip_witness:
  "save_location selected = Some live_path
   \<and> quick_save_location selected = Some (Path ''/'' [''g'', ''quicksave.cogsav''])
   \<and> lookup game_world (Path ''/'' [''g'', ''quicksave.cogsav'']) = None
   \<and> lookup (snd (quick_save (selected, game_world))) (Path ''/'' [''g'', ''quicksave.cogsav''])
        = Some (File live_content)
   \<and> lookup (snd (quick_load (quick_save (selected, game_world)))) live_path
        = Some (File live_content)"
proof -
  let ?r1 = "quick_save (selected, game_world)"
  let ?r2 = "quick_load ?r1"
  have r1: "?r1 =
      (selected\<lparr>main_message := [message_item (demo_clock 0) ''Quicksaved'']\<rparr>,
       game_world\<lparr>fs := fs game_world @ [(Path ''/'' [''g'', ''quicksave.cogsav''], File live_content)],
          io_log := [Copy live_path (Path ''/'' [''g'', ''quicksave.cogsav''])], ticks := 1\<rparr>)"
    by (simp add: quick_save_def copy2_def lookup_def selected_def game_world_def live_path_def
        append_message_eq trace_def parent_def Let_def)
  have r2: "main_message (fst ?r2) =
      [message_item (demo_clock 0) ''Quicksaved'', message_item (demo_clock 1) ''Loaded'']"
    unfolding r1
    by (simp add: quick_load_def copy2_def lookup_def selected_def game_world_def live_path_def
        append_message_eq trace_def parent_def path_exists_def Let_def)
  have h1: "save_location selected = Some live_path"
    and h2: "quick_save_location selected = Some (Path ''/'' [''g'', ''quicksave.cogsav''])"
    by (simp_all add: selected_def)
  have h3: "?r1 = (fst ?r1, snd ?r1)"
    by simp
  have h4: "main_message (fst ?r1) = main_message selected
              @ [message_item (clock game_world (ticks game_world)) ''Quicksaved'']"
    unfolding r1 by (simp add: selected_def game_world_def)
  have h5: "quick_load (fst ?r1, snd ?r1) = (fst ?r2, snd ?r2)"
    by simp
  have h6: "main_message (fst ?r2) = main_message (fst ?r1)
              @ [message_item (clock (snd ?r1) (ticks (snd ?r1))) ''Loaded'']"
    using r2 unfolding r1 by (simp add: game_world_def)
  have "\<exists>bytes. lookup game_world live_path = Some (File bytes)
          \<and> lookup (snd ?r2) live_path = Some (File bytes)"
    by (rule quick_save_quick_load_round_trip [OF h1 h2 h3 h4 h5 h6])
  moreover have "lookup game_world live_path = Some (File live_content)"
    and "lookup game_world (Path ''/'' [''g'', ''quicksave.cogsav'']) = None"
    by (simp_all add: game_world_def lookup_def live_path_def)
  moreover have "lookup (snd ?r1) (Path ''/'' [''g'', ''quicksave.cogsav'']) = Some (File live_content)"
    unfolding r1 by (simp add: game_world_def lookup_def live_path_def)
  ultimately show ?thesis
    using h1 h2 by auto
qed


subsection \<open>Deriving the archive directory and the quick-save path\<close>

lemma truediv_component:
  "truediv p ''saves'' = Path (root p) (parts p @ [''saves''])"
  "truediv p ''quicksave.cogsav'' = Path (root p) (parts p @ [''quicksave.cogsav''])"
  by (simp_all add: truediv_def parse_path_def splitroot_def)

lemma foldl_append_message_fields:
  "save_location (fst (foldl (\<lambda>sw' x. append_message (g x) sw') sw xs)) = save_location (fst sw)"
  "save_folder (fst (foldl (\<lambda>sw' x. append_message (g x) sw') sw xs)) = save_folder (fst sw)"
  "quick_save_location (fst (foldl (\<lambda>sw' x. append_message (g x) sw') sw xs))
     = quick_save_location (fst sw)"
  "saves_list (fst (foldl (\<lambda>sw' x. append_message (g x) sw') sw xs)) = saves_list (fst sw)"
  "fs (snd (foldl (\<lambda>sw' x. append_message (g x) sw') sw xs)) = fs (snd sw)"
  by (induction xs arbitrary: sw; simp add: append_message_def now_def split: prod.splits)+

lemma append_message_fields [simp]:
  "save_location (fst (append_message m sw)) = save_location (fst sw)"
  "save_folder (fst (append_message m sw)) = save_folder (fst sw)"
  "quick_save_location (fst (append_message m sw)) = quick_save_location (fst sw)"
  "saves_list (fst (append_message m sw)) = saves_list (fst sw)"
  "settings (fst (append_message m sw)) = settings (fst sw)"
  "fs (snd (append_message m sw)) = fs (snd sw)"
  "io_log (snd (append_message m sw)) = io_log (snd sw)"
  by (simp_all add: append_message_def now_def split: prod.splits)

lemma generate_saves_list_paths:
  "save_location (fst (generate_saves_list sw)) = save_location (fst sw)"
  "save_folder (fst (generate_saves_list sw)) = save_folder (fst sw)"
  "quick_save_location (fst (generate_saves_list sw)) = quick_save_location (fst sw)"
  by (simp_all add: generate_saves_list_def foldl_append_message_fields path_exists_def
      split: prod.splits option.splits)

text \<open>What \<^verbatim>\<open>_update_game\<close> derives. For a live-save path that exists and that the environment
  resolves to the canonical path \<open>p'\<close>, it stores \<open>p'\<close> as the live-save path and
  \<open>p'.parent / "saves"\<close> as the archive directory. The quick-save path becomes
  \<open>p'.parent / "quicksave.cogsav"\<close> when the archive directory is there or can be created
  (nothing has its name and the parent is a directory); otherwise the assignment is never
  reached and the old value stays.\<close>

lemma derived_paths:
  assumes "save_location s = Some p"
    and "lookup w p \<noteq> None"
    and "resolve_fn w p = Inr p'"
  shows "save_location (fst (update_game (s, w))) = Some p'
       \<and> save_folder (fst (update_game (s, w))) = Some (truediv (parent p') ''saves'')
       \<and> quick_save_location (fst (update_game (s, w))) =
           (if lookup w (truediv (parent p') ''saves'') = Some Dir
               \<or> (lookup w (truediv (parent p') ''saves'') = None \<and> lookup w (parent p') = Some Dir)
            then Some (truediv (parent p') ''quicksave.cogsav'')
            else quick_save_location s)"
  using assms
  by (auto simp: update_game_def path_exists_def resolve_def mkdir_exist_ok_def Let_def
      update_game_failed_def generate_saves_list_paths truediv_component parent_def
      lookup_def trace_def append_message_eq
      split: option.splits node.splits sum.splits)


text \<open>At startup, with a regular file named \<^verbatim>\<open>saves\<close> beside the live save, no quick-save
  path is derived at all.\<close>

lemma no_quick_save_path_at_startup:
  "lookup blocked_world live_path = Some (File live_content)
   \<and> resolve_fn blocked_world live_path = Inr live_path
   \<and> save_location (fst (init [''saveLocation'' \<mapsto> ''/g/storePSdemoPSstate''] blocked_world))
        = Some live_path
   \<and> save_folder (fst (init [''saveLocation'' \<mapsto> ''/g/storePSdemoPSstate''] blocked_world))
        = Some (truediv (parent live_path) ''saves'')
   \<and> quick_save_location (fst (init [''saveLocation'' \<mapsto> ''/g/storePSdemoPSstate''] blocked_world))
        \<noteq> Some (truediv (parent live_path) ''quicksave.cogsav'')"
  by (simp add: init_def load_preferences_def update_game_def update_game_failed_def
      append_message_eq blocked_world_def live_path_def path_defs world_defs Let_def)

text \<open>The state \<open>selected\<close> is the one the program reaches by itself for the first game.\<close>

lemma selected_is_reached:
  "save_location (fst (init [''saveLocation'' \<mapsto> ''/g/storePSdemoPSstate''] two_games_world))
     = save_location selected
   \<and> save_folder (fst (init [''saveLocation'' \<mapsto> ''/g/storePSdemoPSstate''] two_games_world))
     = save_folder selected
   \<and> quick_save_location (fst (init [''saveLocation'' \<mapsto> ''/g/storePSdemoPSstate''] two_games_world))
     = quick_save_location selected
   \<and> saves_list (fst (init [''saveLocation'' \<mapsto> ''/g/storePSdemoPSstate''] two_games_world))
     = saves_list selected
   \<and> settings (fst (init [''saveLocation'' \<mapsto> ''/g/storePSdemoPSstate''] two_games_world))
     = settings selected
   \<and> fs (snd (init [''saveLocation'' \<mapsto> ''/g/storePSdemoPSstate''] two_games_world))
     = fs two_games_world"
  by (simp add: init_def load_preferences_def update_game_def generate_saves_list_def
      append_message_eq selected_def two_games_world_def live_path_def path_defs world_defs
      endswith_def Let_def)

text \<open>
  C2. The quick-save path is not derived from the live-save path that was selected. With
  the first game selected, the user selects the live save of a second game beside which a
  regular file named \<^verbatim>\<open>saves\<close> lies. Creating the archive directory raises after the
  live-save path and the archive directory were updated and before the quick-save path is:
  the quick-save path is still that of the first game, not \<open>P.parent / "quicksave.cogsav"\<close>.
  Quick save then copies the second game's live save onto the first game's quick save and
  reports \<^verbatim>\<open>Quicksaved\<close>.
\<close>

theorem quick_save_path_not_rederived:
  "save_location (fst (change_game (\<lambda>d. ''/h/storePSotherPSstate'') (selected, two_games_world)))
     = Some (Path ''/'' [''h'', ''storePSotherPSstate''])
   \<and> save_folder (fst (change_game (\<lambda>d. ''/h/storePSotherPSstate'') (selected, two_games_world)))
     = Some (truediv (parent (Path ''/'' [''h'', ''storePSotherPSstate''])) ''saves'')
   \<and> quick_save_location (fst (change_game (\<lambda>d. ''/h/storePSotherPSstate'') (selected, two_games_world)))
     = Some (Path ''/'' [''g'', ''quicksave.cogsav''])
   \<and> quick_save_location (fst (change_game (\<lambda>d. ''/h/storePSotherPSstate'') (selected, two_games_world)))
     \<noteq> Some (truediv (parent (Path ''/'' [''h'', ''storePSotherPSstate''])) ''quicksave.cogsav'')
   \<and> io_log (snd (quick_save (change_game (\<lambda>d. ''/h/storePSotherPSstate'') (selected, two_games_world))))
     = [Stat (Path ''/'' [''h'', ''storePSotherPSstate'']),
        Resolve (Path ''/'' [''h'', ''storePSotherPSstate'']),
        Mkdir (Path ''/'' [''h'', ''saves'']),
        Copy (Path ''/'' [''h'', ''storePSotherPSstate'']) (Path ''/'' [''g'', ''quicksave.cogsav''])]
   \<and> lookup (snd (quick_save (change_game (\<lambda>d. ''/h/storePSotherPSstate'') (selected, two_games_world))))
        (Path ''/'' [''g'', ''quicksave.cogsav''])
     = Some (File ''{}'')
   \<and> last (main_message (fst (quick_save
        (change_game (\<lambda>d. ''/h/storePSotherPSstate'') (selected, two_games_world)))))
     = message_item (demo_clock 3) ''Quicksaved''"
  by (simp add: quick_save_def change_game_def update_game_def update_game_failed_def
      append_message_eq selected_def two_games_world_def live_path_def path_defs world_defs
      endswith_def Let_def numeral_3_eq_3)


subsection \<open>Selecting a file that is not a live save\<close>

text \<open>
  C1, as the code has it. When the dialog returns a non-empty path whose filename does not
  end with \<^verbatim>\<open>PSstate\<close>, \<^verbatim>\<open>_change_game\<close> appends two messages (the selection and the
  error), clears the live-save path, and changes nothing else: the archive directory, the
  quick-save path, the listing, the stored preference and the files are as they were.
\<close>

theorem select_invalid:
  assumes "getOpenFileName (case save_location s of Some loc \<Rightarrow> str_path (parent loc) | None \<Rightarrow> [])
             = file_path"
    and "file_path \<noteq> []"
    and "\<not> endswith (name (parse_path file_path)) ''PSstate''"
  shows "change_game getOpenFileName (s, w) =
           (s\<lparr>save_location := None,
               main_message := main_message s
                 @ [message_item (clock w (ticks w)) (''Selected '' @ str_path (parse_path file_path)),
                    message_item (clock w (Suc (ticks w))) invalid_save_file_selected]\<rparr>,
            w\<lparr>ticks := Suc (Suc (ticks w))\<rparr>)
       \<and> save_location (fst (change_game getOpenFileName (s, w))) = None
       \<and> save_folder (fst (change_game getOpenFileName (s, w))) = save_folder s
       \<and> quick_save_location (fst (change_game getOpenFileName (s, w))) = quick_save_location s"
  using assms
  by (simp add: change_game_def append_message_eq Let_def)

theorem select_invalid_witness:
  "''/g/notes.txt'' \<noteq> []
   \<and> \<not> endswith (name (parse_path ''/g/notes.txt'')) ''PSstate''
   \<and> save_location (fst (change_game (\<lambda>d. ''/g/notes.txt'') (selected, game_world))) = None
   \<and> save_folder (fst (change_game (\<lambda>d. ''/g/notes.txt'') (selected, game_world)))
        = Some (Path ''/'' [''g'', ''saves''])
   \<and> quick_save_location (fst (change_game (\<lambda>d. ''/g/notes.txt'') (selected, game_world)))
        = Some (Path ''/'' [''g'', ''quicksave.cogsav''])"
  using select_invalid [of "\<lambda>d. ''/g/notes.txt''" selected "''/g/notes.txt''" game_world]
  by (simp add: selected_def endswith_def path_defs)

text \<open>
  The claim as written says the live-save path is retained; a selected live save is lost.
\<close>

theorem select_invalid_counterexample:
  "\<not> endswith (name (parse_path ''/g/notes.txt'')) ''PSstate''
   \<and> save_location selected = Some live_path
   \<and> save_location (fst (change_game (\<lambda>d. ''/g/notes.txt'') (selected, game_world)))
        \<noteq> save_location selected"
  by (simp add: change_game_def append_message_eq Let_def selected_def endswith_def path_defs)


subsection \<open>The suggested name\<close>

text \<open>A match of either search is not empty, so \<^verbatim>\<open>if name:\<close> and \<^verbatim>\<open>if scene:\<close> only test
  whether there was a match.\<close>

lemma quoted_group_nonempty: "quoted_group s = Some g \<Longrightarrow> g \<noteq> []"
  by (auto simp: quoted_group_def Let_def split: option.splits if_splits)

lemma after_key_nonempty: "after_key s = Some g \<Longrightarrow> g \<noteq> []"
  by (auto simp: after_key_def split: option.splits dest: quoted_group_nonempty)

lemma alternatives_nonempty: "alternatives ks s = Some g \<Longrightarrow> g \<noteq> []"
  by (induction ks) (auto split: option.splits dest: after_key_nonempty)

lemma match_here_nonempty: "match_here ks s = Some g \<Longrightarrow> g \<noteq> []"
  by (auto simp: match_here_def split: option.splits dest: alternatives_nonempty)

lemma re_search_nonempty: "re_search ks s = Some g \<Longrightarrow> g \<noteq> []"
  by (induction s) (auto split: option.splits dest: match_here_nonempty)

lemma truthy_re_search:
  "truthy (re_search ks s) = (case re_search ks s of None \<Rightarrow> [] | Some g \<Rightarrow> [g])"
  by (auto simp: truthy_def split: option.splits dest: re_search_nonempty)

lemma strftime_stamp_format:
  "length (strftime_stamp t) = 14
   \<and> strftime_stamp t ! 2 = CHR ''.'' \<and> strftime_stamp t ! 5 = CHR ''.''
   \<and> strftime_stamp t ! 8 = CHR '' '' \<and> strftime_stamp t ! 11 = CHR ''.''"
  by (simp add: strftime_stamp_def pad2_def)

text \<open>
  C8. When no live save is selected, \<^verbatim>\<open>_parse_save\<close> returns exactly the timestamp: the
  clock read after the message \<^verbatim>\<open>Parsing current save...\<close> took its own reading,
  formatted \<^verbatim>\<open>%y.%m.%d %H.%M\<close>. When the live save is a file of well-formed UTF-8, it
  returns the name found (if any), that timestamp and the scene found (if any), in this
  order, separated by single spaces; with neither found, exactly the timestamp.
\<close>

theorem suggested_name:
  "(save_location s = None \<longrightarrow>
      fst (parse_save (s, w)) = Inr (strftime_stamp (clock w (Suc (ticks w)))))
   \<and> (\<forall>loc bytes.
        save_location s = Some loc \<and> lookup w loc = Some (File bytes) \<and> utf8_valid bytes \<longrightarrow>
        fst (parse_save (s, w)) =
          Inr (case (name_match (universal_newlines bytes), scene_match (universal_newlines bytes)) of
                 (None, None) \<Rightarrow> strftime_stamp (clock w (Suc (ticks w)))
               | (Some n, None) \<Rightarrow> n @ '' '' @ strftime_stamp (clock w (Suc (ticks w)))
               | (None, Some sc) \<Rightarrow> strftime_stamp (clock w (Suc (ticks w))) @ '' '' @ sc
               | (Some n, Some sc) \<Rightarrow>
                   n @ '' '' @ strftime_stamp (clock w (Suc (ticks w))) @ '' '' @ sc))"
  by (auto simp: parse_save_def append_message_eq now_def read_text_def suggest_def Let_def
      lookup_def trace_def name_match_def scene_match_def truthy_re_search
      split: option.splits)

theorem suggested_name_witness:
  "save_location unselected = None
   \<and> fst (parse_save (unselected, empty_world)) = Inr ''26.11.04 09.05''
   \<and> save_location selected = Some live_path
   \<and> lookup game_world live_path = Some (File live_content)
   \<and> utf8_valid live_content
   \<and> fst (parse_save (selected, game_world)) = Inr ''Avery 26.11.04 09.05 chapter1''"
proof -
  have a: "save_location unselected = None"
    by (simp add: unselected_def)
  have b: "save_location selected = Some live_path \<and> lookup game_world live_path = Some (File live_content)
      \<and> utf8_valid live_content"
    by (simp add: selected_def game_world_def lookup_def live_path_def live_content_def
        dquote_def byte_def)
  have c: "universal_newlines live_content = live_content"
    by (simp add: live_content_def dquote_def carriage_return_def)
  have d: "name_match live_content = Some ''Avery''"
    by (simp add: live_content_def regex_defs)
  have e: "scene_match live_content = Some ''chapter1''"
    by (simp add: live_content_def regex_defs)
  have t: "strftime_stamp (demo_clock n) = ''26.11.04 09.05''" for n
    by (simp add: strftime_stamp_def pad2_def digit_def demo_clock_def)
  from suggested_name [of unselected empty_world] a
  have "fst (parse_save (unselected, empty_world)) = Inr ''26.11.04 09.05''"
    by (simp add: empty_world_def t)
  moreover from suggested_name [of selected game_world] b
  have "fst (parse_save (selected, game_world)) = Inr ''Avery 26.11.04 09.05 chapter1''"
    by (simp add: c d e t game_world_def)
  ultimately show ?thesis
    using a b by simp
qed

subsection \<open>A live save that cannot be read\<close>

text \<open>An \<^verbatim>\<open>OSError\<close> on opening the live save (it is missing, or a directory) is caught:
  a message reports it and the timestamp alone is returned.\<close>

lemma parse_save_swallows_oserror:
  assumes "save_location s = Some loc"
    and "lookup w loc = None \<or> lookup w loc = Some Dir"
    and "e = (if lookup w loc = None then FileNotFoundError loc else IsADirectoryError loc)"
  shows "parse_save (s, w) =
           (Inr (strftime_stamp (clock w (Suc (Suc (ticks w))))),
            s\<lparr>main_message := main_message s
                @ [message_item (clock w (ticks w)) ''Parsing current save...'',
                   message_item (clock w (Suc (ticks w))) (''Error parsing save: '' @ str_oserror e),
                   message_item (clock w (Suc (Suc (Suc (ticks w)))))
                     (strftime_stamp (clock w (Suc (Suc (ticks w)))))]\<rparr>,
            w\<lparr>ticks := ticks w + 4, io_log := io_log w @ [OpenRead loc]\<rparr>)"
  using assms
  by (auto simp: parse_save_def append_message_eq read_text_def lookup_def trace_def Let_def
      suggest_def now_def truthy_def)


text \<open>
  C6. A live save whose bytes are not UTF-8 makes \<^verbatim>\<open>f.read()\<close> raise
  \<^verbatim>\<open>UnicodeDecodeError\<close>, which \<^verbatim>\<open>except OSError\<close> does not catch: \<^verbatim>\<open>_parse_save\<close> raises, and
  so does \<^verbatim>\<open>_create_perm_save\<close>, after the one message \<^verbatim>\<open>Parsing current save...\<close>; no name
  is suggested and nothing is copied.
\<close>

theorem parse_save_invalid_utf8:
  "save_location selected = Some live_path
   \<and> lookup corrupt_world live_path = Some (File [CHR 0xFF])
   \<and> fst (parse_save (selected, corrupt_world)) = Inl UnicodeDecodeError
   \<and> fst (create_perm_save (\<lambda>suggested. suggested) (selected, corrupt_world)) = Some UnicodeDecodeError
   \<and> main_message (fst (snd (create_perm_save (\<lambda>suggested. suggested) (selected, corrupt_world))))
        = [message_item (demo_clock 0) ''Parsing current save...'']
   \<and> io_log (snd (snd (create_perm_save (\<lambda>suggested. suggested) (selected, corrupt_world))))
        = [OpenRead live_path]"
  by (simp add: create_perm_save_def parse_save_def append_message_eq read_text_def lookup_def
      trace_def selected_def corrupt_world_def live_path_def byte_def between_def Let_def)

subsection \<open>Which of \<^verbatim>\<open>name\<close> and \<^verbatim>\<open>firstname\<close> is extracted\<close>

text \<open>The width of a white-space character depends on its own bytes only, so a run of
  white space is skipped whatever follows it.\<close>

lemma space_width_ascii: "ascii_space c \<Longrightarrow> space_width (c # cs) = 1"
  by (simp add: space_width_def)

lemma space_width_le3: "space_width s \<le> 3"
  by (simp add: space_width_def split: list.splits)

lemma space_width_append:
  assumes "space_width (c # cs) \<noteq> 0"
  shows "space_width (c # cs @ t) = space_width (c # cs) \<and> space_width (c # cs) - 1 \<le> length cs"
proof (cases "ascii_space c")
  case True
  then show ?thesis by (simp add: space_width_ascii)
next
  case False
  show ?thesis
  proof (cases cs)
    case Nil
    with assms False show ?thesis
      by (simp add: space_width_def)
  next
    case outer: (Cons a as)
    show ?thesis
    proof (cases as)
      case Nil
      with outer assms False have "c = CHR 0xC2" and "a = CHR 0x85 \<or> a = CHR 0xA0"
        by (simp_all add: space_width_def split: if_splits)
      with outer Nil False show ?thesis
        by (auto simp: space_width_def)
    next
      case (Cons b bs)
      have "space_width (c # cs @ t) = space_width (c # cs)"
        unfolding outer Cons by (simp add: space_width_def del: if_split cong: if_cong)
      moreover have "space_width (c # cs) - 1 \<le> length cs"
        using space_width_le3 [of "c # cs"] outer Cons by simp
      ultimately show ?thesis by simp
    qed
  qed
qed

lemma skip_space_white:
  "white_space ws \<Longrightarrow> skip_space (ws @ t) = skip_space t"
proof (induction ws rule: white_space.induct)
  case 1
  then show ?case by simp
next
  case (2 c cs)
  from "2.prems" have nz: "space_width (c # cs) \<noteq> 0"
    and rest: "white_space (drop (space_width (c # cs) - 1) cs)"
    by simp_all
  from space_width_append [OF nz, of t]
  have w: "space_width (c # cs @ t) = space_width (c # cs)"
    and le: "space_width (c # cs) - 1 \<le> length cs"
    by simp_all
  have "skip_space ((c # cs) @ t) = skip_space (drop (space_width (c # cs) - 1) (cs @ t))"
    using nz w by simp
  also have "drop (space_width (c # cs) - 1) (cs @ t) = drop (space_width (c # cs) - 1) cs @ t"
    using le by simp
  also have "skip_space (drop (space_width (c # cs) - 1) cs @ t) = skip_space t"
    using "2.IH" nz rest by simp
  finally show ?case .
qed

lemma white_space_ascii: "\<forall>c\<in>set ws. ascii_space c \<Longrightarrow> white_space ws"
  by (induction ws) (simp_all add: space_width_def)

lemma skip_space_stop:
  "space_width (c # cs) = 0 \<Longrightarrow> skip_space (c # cs) = c # cs"
  by simp

lemma quoted_group_value:
  assumes "v \<noteq> []" "dquote \<notin> set v"
  shows "quoted_group (dquote # v @ dquote # rest) = Some v"
proof -
  have all: "\<And>x. x \<in> set v \<Longrightarrow> x \<noteq> dquote"
    using assms(2) by auto
  have t: "takeWhile (\<lambda>c. c \<noteq> dquote) (v @ dquote # rest) = v"
    using all by (simp add: takeWhile_append2)
  have d: "dropWhile (\<lambda>c. c \<noteq> dquote) (v @ dquote # rest) = dquote # rest"
    using all by (simp add: dropWhile_append2)
  show ?thesis
    using assms(1) by (simp add: quoted_group_def literal_def startswith_def t d)
qed

lemma space_width_colon: "space_width (CHR '':'' # cs) = 0"
  by (simp add: space_width_def ascii_space_def)

lemma space_width_dquote: "space_width (dquote # cs) = 0"
  by (simp add: space_width_def ascii_space_def dquote_def)

lemma after_key_field:
  assumes ws1: "white_space ws1" and ws2: "white_space ws2"
    and v: "v \<noteq> []" "dquote \<notin> set v"
  shows "after_key (dquote # ws1 @ '':'' @ ws2 @ dquote # v @ dquote # rest) = Some v"
proof -
  let ?z = "dquote # v @ dquote # rest"
  let ?y = "ws2 @ ?z"
  have a: "literal [dquote] (dquote # ws1 @ '':'' @ ?y) = Some (ws1 @ CHR '':'' # ?y)"
    by (simp add: literal_def startswith_def)
  have b: "skip_space (ws1 @ CHR '':'' # ?y) = CHR '':'' # ?y"
    using skip_space_white [OF ws1, of "CHR '':'' # ?y"] skip_space_stop [OF space_width_colon]
    by simp
  have c: "literal '':'' (CHR '':'' # ?y) = Some ?y"
    by (simp add: literal_def startswith_def)
  have d: "skip_space ?y = ?z"
    using skip_space_white [OF ws2, of ?z] skip_space_stop [OF space_width_dquote]
    by simp
  have "after_key (dquote # ws1 @ CHR '':'' # ?y) = Some v"
    using a quoted_group_value [OF v, of rest] by (simp add: after_key_def b c d)
  then show ?thesis by simp
qed

lemma match_here_field:
  assumes "key = ''name'' \<or> key = ''firstname''"
    and "white_space ws1" "white_space ws2" "v \<noteq> []" "dquote \<notin> set v"
  shows "match_here [''name'', ''firstname''] (field_text key ws1 ws2 v @ rest) = Some v"
proof -
  let ?t = "dquote # ws1 @ '':'' @ ws2 @ dquote # v @ dquote # rest"
  have k: "after_key ?t = Some v"
    by (rule after_key_field [OF assms(2-5)])
  have h: "literal [dquote] (field_text key ws1 ws2 v @ rest) = Some (key @ ?t)"
    by (simp add: literal_def startswith_def field_text_def)
  have "alternatives [''name'', ''firstname''] (key @ ?t) = Some v"
    using assms(1)
  proof
    assume "key = ''name''"
    then show ?thesis using k by (simp add: literal_def startswith_def)
  next
    assume "key = ''firstname''"
    then show ?thesis using k by (simp add: literal_def startswith_def)
  qed
  then show ?thesis
    by (simp add: match_here_def h)
qed


text \<open>The search returns the match at the first offset that has one.\<close>

lemma name_match_leftmost:
  assumes "k \<le> length content"
    and "\<forall>j<k. match_here [''name'', ''firstname''] (drop j content) = None"
    and "match_here [''name'', ''firstname''] (drop k content) = Some v"
  shows "name_match content = Some v"
  using assms unfolding name_match_def
proof (induction content arbitrary: k)
  case Nil
  then show ?case by simp
next
  case (Cons c cs)
  show ?case
  proof (cases k)
    case 0
    with Cons.prems show ?thesis by simp
  next
    case (Suc k')
    with Cons.prems have "match_here [''name'', ''firstname''] (c # cs) = None"
      by auto
    moreover have "re_search [''name'', ''firstname''] cs = Some v"
    proof (rule Cons.IH [of k'])
      show "k' \<le> length cs" using Cons.prems Suc by simp
      show "\<forall>j<k'. match_here [''name'', ''firstname''] (drop j cs) = None"
      proof (intro allI impI)
        fix j assume "j < k'"
        then have "Suc j < k" using Suc by simp
        with Cons.prems(2) have "match_here [''name'', ''firstname''] (drop (Suc j) (c # cs)) = None"
          by blast
        then show "match_here [''name'', ''firstname''] (drop j cs) = None" by simp
      qed
      show "match_here [''name'', ''firstname''] (drop k' cs) = Some v"
        using Cons.prems(3) Suc by simp
    qed
    ultimately show ?thesis by simp
  qed
qed

text \<open>
  C7, as the code has it. The value extracted is that of the leftmost field whose key is
  \<^verbatim>\<open>name\<close> or \<^verbatim>\<open>firstname\<close>, whichever of the two keys it has: when no match starts before
  a field (quoted key, any run of Unicode white space, colon, any run of Unicode white
  space, quoted non-empty value without a quote), its value is the result, whatever
  follows. The key \<^verbatim>\<open>name\<close> is tried before
  \<^verbatim>\<open>firstname\<close> only at one and the same offset.
\<close>

theorem leftmost_field_wins:
  assumes "key = ''name'' \<or> key = ''firstname''"
    and "white_space ws1" and "white_space ws2"
    and "v \<noteq> []" and "dquote \<notin> set v"
    and "\<forall>j<length pre.
           match_here [''name'', ''firstname''] (drop j (pre @ field_text key ws1 ws2 v @ rest)) = None"
  shows "name_match (pre @ field_text key ws1 ws2 v @ rest) = Some v"
proof (rule name_match_leftmost [of "length pre"])
  show "length pre \<le> length (pre @ field_text key ws1 ws2 v @ rest)"
    by simp
  show "\<forall>j<length pre.
          match_here [''name'', ''firstname''] (drop j (pre @ field_text key ws1 ws2 v @ rest)) = None"
    by (rule assms(6))
  show "match_here [''name'', ''firstname'']
          (drop (length pre) (pre @ field_text key ws1 ws2 v @ rest)) = Some v"
    using match_here_field [OF assms(1-5), of rest] by simp
qed

theorem leftmost_field_wins_witness:
  "spaced_names_content
     = ''{'' @ field_text ''firstname'' [CHR 0xE2, CHR 0x80, CHR 0x83] [CHR 0xC2, CHR 0xA0, CHR 0x0A] ''Al''
         @ ('', '' @ field_text ''name'' [] '' '' ''Bo'' @ ''}'')
   \<and> white_space [CHR 0xE2, CHR 0x80, CHR 0x83]
   \<and> white_space [CHR 0xC2, CHR 0xA0, CHR 0x0A]
   \<and> match_here [''name'', ''firstname''] (drop 0 spaced_names_content) = None
   \<and> name_match spaced_names_content = Some ''Al''"
proof -
  let ?ws1 = "[CHR 0xE2, CHR 0x80, CHR 0x83]"
  let ?ws2 = "[CHR 0xC2, CHR 0xA0, CHR 0x0A]"
  let ?rest = "'', '' @ field_text ''name'' [] '' '' ''Bo'' @ ''}''"
  have eq: "spaced_names_content = ''{'' @ field_text ''firstname'' ?ws1 ?ws2 ''Al'' @ ?rest"
    by (simp add: spaced_names_content_def field_text_def)
  have w: "white_space ?ws1" "white_space ?ws2"
    by (simp_all add: space_width_def ascii_space_def)
  have b: "match_here [''name'', ''firstname''] (drop 0 spaced_names_content) = None"
    by (simp add: spaced_names_content_def regex_defs)
  have "\<forall>j<length ''{''.
          match_here [''name'', ''firstname'']
            (drop j (''{'' @ field_text ''firstname'' ?ws1 ?ws2 ''Al'' @ ?rest)) = None"
    using b unfolding eq by simp
  then have "name_match (''{'' @ field_text ''firstname'' ?ws1 ?ws2 ''Al'' @ ?rest) = Some ''Al''"
    using w by (intro leftmost_field_wins) (simp_all add: dquote_def)
  then show ?thesis
    using eq b w by simp
qed

text \<open>
  The claim as written prefers \<^verbatim>\<open>name\<close> whenever both fields occur; with \<^verbatim>\<open>firstname\<close>
  first in the content, the value of \<^verbatim>\<open>firstname\<close> is extracted.
\<close>

theorem name_preferred_counterexample:
  "match_here [''name'', ''firstname''] (drop 1 two_names_content) = Some ''Al''
   \<and> take (length (field_text ''firstname'' [] '' '' ''Al'')) (drop 1 two_names_content)
        = field_text ''firstname'' [] '' '' ''Al''
   \<and> match_here [''name'', ''firstname''] (drop 20 two_names_content) = Some ''Bo''
   \<and> take (length (field_text ''name'' [] '' '' ''Bo'')) (drop 20 two_names_content)
        = field_text ''name'' [] '' '' ''Bo''
   \<and> name_match two_names_content = Some ''Al''
   \<and> name_match two_names_content \<noteq> Some ''Bo''"
  by (simp add: two_names_content_def field_text_def regex_defs)


subsection \<open>The archive listing\<close>

lemma generate_saves_list_present:
  assumes "save_folder s = Some d" "lookup w d = Some Dir"
  shows "saves_list (fst (generate_saves_list (s, w)))
           = filter (\<lambda>q. endswith (name q) ''.cogsav'') (entries w d)"
  using assms
  by (simp add: generate_saves_list_def path_exists_def glob_cogsav_def entries_def
      lookup_def trace_def foldl_append_message_fields)

text \<open>
  C9, as the code has it. When the archive directory is a directory, \<^verbatim>\<open>_generate_saves_list\<close>
  stores exactly its own entries (not those of subdirectories) whose filename ends with
  \<^verbatim>\<open>.cogsav\<close>, in the order of the directory scan; for a directory without entries that is
  the empty list. When nothing exists at the archive directory's path (or no archive
  directory is set), the stored listing is left as it was, no message is appended and no
  file is changed.
\<close>

theorem archive_listing:
  "(\<forall>d. save_folder s = Some d \<and> lookup w d = Some Dir \<longrightarrow>
       saves_list (fst (generate_saves_list (s, w)))
         = filter (\<lambda>q. endswith (name q) ''.cogsav'') (entries w d)
       \<and> set (saves_list (fst (generate_saves_list (s, w))))
         = {q \<in> fst ` set (fs w). parts q \<noteq> [] \<and> parent q = d \<and> endswith (name q) ''.cogsav''}
       \<and> (entries w d = [] \<longrightarrow> saves_list (fst (generate_saves_list (s, w))) = []))
   \<and> ((\<forall>d. save_folder s = Some d \<longrightarrow> lookup w d = None) \<longrightarrow>
       saves_list (fst (generate_saves_list (s, w))) = saves_list s
       \<and> main_message (fst (generate_saves_list (s, w))) = main_message s
       \<and> fs (snd (generate_saves_list (s, w))) = fs w)"
proof (intro conjI allI impI)
  fix d
  assume a: "save_folder s = Some d \<and> lookup w d = Some Dir"
  then show l: "saves_list (fst (generate_saves_list (s, w)))
           = filter (\<lambda>q. endswith (name q) ''.cogsav'') (entries w d)"
    using generate_saves_list_present by blast
  show "set (saves_list (fst (generate_saves_list (s, w))))
         = {q \<in> fst ` set (fs w). parts q \<noteq> [] \<and> parent q = d \<and> endswith (name q) ''.cogsav''}"
    unfolding l by (auto simp: entries_def)
  assume "entries w d = []"
  then show "saves_list (fst (generate_saves_list (s, w))) = []"
    unfolding l by simp
next
  assume n: "\<forall>d. save_folder s = Some d \<longrightarrow> lookup w d = None"
  then show "saves_list (fst (generate_saves_list (s, w))) = saves_list s"
    by (cases "save_folder s") (simp_all add: generate_saves_list_def path_exists_def)
  from n show "main_message (fst (generate_saves_list (s, w))) = main_message s"
    by (cases "save_folder s") (simp_all add: generate_saves_list_def path_exists_def)
  from n show "fs (snd (generate_saves_list (s, w))) = fs w"
    by (cases "save_folder s") (simp_all add: generate_saves_list_def path_exists_def trace_def)
qed

theorem archive_listing_witness:
  "save_folder selected = Some (Path ''/'' [''g'', ''saves''])
   \<and> lookup game_world (Path ''/'' [''g'', ''saves'']) = Some Dir
   \<and> saves_list (fst (generate_saves_list (selected\<lparr>saves_list := []\<rparr>, game_world)))
        = [Path ''/'' [''g'', ''saves'', ''a.cogsav''], Path ''/'' [''g'', ''saves'', ''b.cogsav'']]
   \<and> save_folder unselected = None
   \<and> saves_list (fst (generate_saves_list (unselected, game_world))) = []"
proof -
  have a: "save_folder selected = Some (Path ''/'' [''g'', ''saves''])
      \<and> lookup game_world (Path ''/'' [''g'', ''saves'']) = Some Dir"
    by (simp add: selected_def game_world_def lookup_def live_path_def)
  have e: "filter (\<lambda>q. endswith (name q) ''.cogsav'') (entries game_world (Path ''/'' [''g'', ''saves'']))
      = [Path ''/'' [''g'', ''saves'', ''a.cogsav''], Path ''/'' [''g'', ''saves'', ''b.cogsav'']]"
    by (simp add: entries_def game_world_def live_path_def parent_def name_def endswith_def)
  have u: "save_folder unselected = None"
    by (simp add: unselected_def)
  from archive_listing [of "selected\<lparr>saves_list := []\<rparr>" game_world] a e
  have "saves_list (fst (generate_saves_list (selected\<lparr>saves_list := []\<rparr>, game_world)))
        = [Path ''/'' [''g'', ''saves'', ''a.cogsav''], Path ''/'' [''g'', ''saves'', ''b.cogsav'']]"
    by simp
  moreover from archive_listing [of unselected game_world] u
  have "saves_list (fst (generate_saves_list (unselected, game_world))) = []"
    by (simp add: unselected_def)
  ultimately show ?thesis
    using a u by simp
qed

text \<open>
  The claim as written says the listing is empty when the directory does not exist. With
  the game directory gone, the listing taken when the game was selected stays.
\<close>

theorem archive_listing_counterexample:
  "save_folder selected = Some (Path ''/'' [''g'', ''saves''])
   \<and> lookup empty_world (Path ''/'' [''g'', ''saves'']) = None
   \<and> saves_list (fst (generate_saves_list (selected, empty_world)))
        = [Path ''/'' [''g'', ''saves'', ''a.cogsav''], Path ''/'' [''g'', ''saves'', ''b.cogsav'']]
   \<and> saves_list (fst (generate_saves_list (selected, empty_world))) \<noteq> []"
  by (simp add: generate_saves_list_def path_exists_def selected_def empty_world_def lookup_def)
text \<open>The same is seen within one session: after a second game is selected whose archive
  directory cannot be created, the listing (and the quick-save path) are still those of
  the first game.\<close>

lemma stale_listing_after_reselection:
  "save_location (fst (change_game (\<lambda>d. ''/h/storePSotherPSstate'') (selected, two_games_world)))
     = Some (Path ''/'' [''h'', ''storePSotherPSstate''])
   \<and> save_folder (fst (change_game (\<lambda>d. ''/h/storePSotherPSstate'') (selected, two_games_world)))
     = Some (Path ''/'' [''h'', ''saves''])
   \<and> saves_list (fst (change_game (\<lambda>d. ''/h/storePSotherPSstate'') (selected, two_games_world)))
     = [Path ''/'' [''g'', ''saves'', ''a.cogsav''], Path ''/'' [''g'', ''saves'', ''b.cogsav'']]
   \<and> quick_save_location (fst (change_game (\<lambda>d. ''/h/storePSotherPSstate'') (selected, two_games_world)))
     = Some (Path ''/'' [''g'', ''quicksave.cogsav''])"
  by (simp add: change_game_def update_game_def update_game_failed_def append_message_eq
      selected_def two_games_world_def live_path_def path_defs world_defs endswith_def Let_def)

subsection \<open>The extension of an archive save\<close>

lemma rfind_dot_none: "CHR ''.'' \<notin> set n \<Longrightarrow> rfind_dot n = None"
  by (induction n) auto

lemma rfind_dot_last: "CHR ''.'' \<notin> set b \<Longrightarrow> rfind_dot (a @ CHR ''.'' # b) = Some (length a)"
  by (induction a) (simp_all add: rfind_dot_none)

lemma suffix_no_dot: "CHR ''.'' \<notin> set (name p) \<Longrightarrow> suffix p = []"
  by (simp add: suffix_def rfind_dot_none)

lemma suffix_last_dot:
  assumes "name p = a @ CHR ''.'' # b" "CHR ''.'' \<notin> set b"
  shows "suffix p = (if a \<noteq> [] \<and> b \<noteq> [] then CHR ''.'' # b else [])"
  using assms by (auto simp: suffix_def rfind_dot_last)

lemma digit_not_dot: "digit d \<noteq> CHR ''.''" "CHR ''.'' \<noteq> digit d"
proof -
  have "digit d \<in> set ''0123456789''"
    unfolding digit_def by (rule nth_mem) simp
  then show "digit d \<noteq> CHR ''.''" "CHR ''.'' \<noteq> digit d" by auto
qed

lemma strftime_stamp_split:
  "strftime_stamp t =
     (pad2 (year t mod 100) @ ''.'' @ pad2 (month t) @ ''.'' @ pad2 (day t) @ '' '' @ pad2 (hour t))
       @ CHR ''.'' # pad2 (minute t)"
  by (simp add: strftime_stamp_def)

lemma pad2_no_dot: "CHR ''.'' \<notin> set (pad2 n)"
  by (simp add: pad2_def digit_not_dot)

text \<open>The file that \<^verbatim>\<open>_create_perm_save\<close> computes from the dialog's answer.\<close>

lemma archive_target_no_dot:
  assumes "name (parse_path save_path) \<noteq> []" "CHR ''.'' \<notin> set (name (parse_path save_path))"
  shows "archive_target save_path = Inr (appended (parse_path save_path))"
  using assms by (simp add: archive_target_def suffix_no_dot with_suffix_def appended_def Let_def)

lemma archive_target_last_dot:
  assumes "name (parse_path save_path) = a @ CHR ''.'' # b" "CHR ''.'' \<notin> set b"
  shows "archive_target save_path =
           Inr (if a \<noteq> [] \<and> b \<noteq> [] then parse_path save_path else appended (parse_path save_path))"
  using assms suffix_last_dot [OF assms]
  by (simp add: archive_target_def with_suffix_def appended_def Let_def)

lemma archive_target_stamp:
  assumes "name (parse_path save_path) = pre @ strftime_stamp t @ post" "CHR ''.'' \<notin> set post"
  shows "suffix (parse_path save_path) = CHR ''.'' # pad2 (minute t) @ post"
    and "archive_target save_path = Inr (parse_path save_path)"
proof -
  let ?a = "pre @ pad2 (year t mod 100) @ ''.'' @ pad2 (month t) @ ''.'' @ pad2 (day t) @ '' ''
              @ pad2 (hour t)"
  let ?b = "pad2 (minute t) @ post"
  have n: "name (parse_path save_path) = ?a @ CHR ''.'' # ?b"
    using assms by (simp add: strftime_stamp_def)
  have d: "CHR ''.'' \<notin> set ?b"
    using assms pad2_no_dot by simp
  have ne: "?a \<noteq> [] \<and> ?b \<noteq> []"
    by (simp add: pad2_def)
  from suffix_last_dot [OF n d] ne
  show "suffix (parse_path save_path) = CHR ''.'' # pad2 (minute t) @ post"
    by simp
  then show "archive_target save_path = Inr (parse_path save_path)"
    by (simp add: archive_target_def Let_def)
qed

text \<open>A copy to a file that can be written puts the live save's bytes there.\<close>

lemma write_archive_save_copies:
  assumes "lookup w1 loc = Some (File bytes)" and "save_file \<noteq> loc"
    and "lookup w1 save_file \<noteq> Some Dir" and "lookup w1 (parent save_file) = Some Dir"
  shows "lookup (snd (write_archive_save loc save_file (s1, w1))) save_file = Some (File bytes)
       \<and> io_log (snd (write_archive_save loc save_file (s1, w1))) = io_log w1 @ [Copy loc save_file]
       \<and> main_message (fst (write_archive_save loc save_file (s1, w1)))
           = main_message s1 @ [message_item (clock w1 (ticks w1)) (''Saved to '' @ str_path save_file)]"
  using assms
  by (auto simp: write_archive_save_def copy2_def Let_def append_message_eq trace_def lookup_def
      update_conv' split: option.splits node.splits)

text \<open>
  C10, as the code has it. Let a live save be selected, let \<^verbatim>\<open>_parse_save\<close> return a suggested
  name, and let the dialog return a non-empty path with final component \<open>n\<close>. Then
  \<^verbatim>\<open>_create_perm_save\<close> copies the live save
  \<^item> to the path with \<^verbatim>\<open>.cogsav\<close> appended, when \<open>n\<close> is not empty and has no dot;
  \<^item> when \<open>n\<close> has a dot, to the path unchanged if the last dot is neither the first nor the
    last character of \<open>n\<close>, and to the path with \<^verbatim>\<open>.cogsav\<close> appended otherwise;
  \<^item> to the path unchanged when \<open>n\<close> ends with the timestamp \<^verbatim>\<open>YY.MM.DD HH.MM\<close>, or with
    the timestamp and text without a dot, as the suggested name does: its suffix is
    \<^verbatim>\<open>.MM\<close> and that text.
  Where the live save is a file and the target can be written (it is not the live save nor
  a directory, and its parent is a directory), the target then holds the live save's bytes,
  one copy is traced, and \<^verbatim>\<open>Saved to\<close> is reported.
\<close>

theorem archive_save_extension:
  assumes "save_location s = Some loc"
    and "parse_save (s, w) = (Inr suggested_name, s1, w1)"
    and "getSaveFileName (case save_folder s1 of
                            Some folder \<Rightarrow> str_path (truediv folder suggested_name)
                          | None \<Rightarrow> suggested_name) = save_path"
    and "save_path \<noteq> []"
  shows "(name (parse_path save_path) \<noteq> [] \<and> CHR ''.'' \<notin> set (name (parse_path save_path)) \<longrightarrow>
            create_perm_save getSaveFileName (s, w)
              = (None, write_archive_save loc (appended (parse_path save_path)) (s1, w1)))
       \<and> (\<forall>a b. name (parse_path save_path) = a @ CHR ''.'' # b \<and> CHR ''.'' \<notin> set b \<longrightarrow>
            create_perm_save getSaveFileName (s, w)
              = (None, write_archive_save loc
                         (if a \<noteq> [] \<and> b \<noteq> [] then parse_path save_path
                          else appended (parse_path save_path)) (s1, w1)))
       \<and> (\<forall>pre t post. name (parse_path save_path) = pre @ strftime_stamp t @ post
              \<and> CHR ''.'' \<notin> set post \<longrightarrow>
            suffix (parse_path save_path) = CHR ''.'' # pad2 (minute t) @ post
            \<and> create_perm_save getSaveFileName (s, w)
                = (None, write_archive_save loc (parse_path save_path) (s1, w1)))
       \<and> (\<forall>save_file bytes. lookup w1 loc = Some (File bytes) \<and> save_file \<noteq> loc
              \<and> lookup w1 save_file \<noteq> Some Dir \<and> lookup w1 (parent save_file) = Some Dir \<longrightarrow>
            lookup (snd (write_archive_save loc save_file (s1, w1))) save_file = Some (File bytes)
            \<and> io_log (snd (write_archive_save loc save_file (s1, w1)))
                = io_log w1 @ [Copy loc save_file]
            \<and> main_message (fst (write_archive_save loc save_file (s1, w1)))
                = main_message s1
                    @ [message_item (clock w1 (ticks w1)) (''Saved to '' @ str_path save_file)])"
proof -
  have cw: "create_perm_save getSaveFileName (s, w) = (None, write_archive_save loc save_file (s1, w1))"
    if "archive_target save_path = Inr save_file" for save_file
    using assms that by (simp add: create_perm_save_def Let_def)
  show ?thesis
proof (intro conjI allI impI)
  assume "name (parse_path save_path) \<noteq> [] \<and> CHR ''.'' \<notin> set (name (parse_path save_path))"
  then have "archive_target save_path = Inr (appended (parse_path save_path))"
    using archive_target_no_dot by blast
  then show "create_perm_save getSaveFileName (s, w)
      = (None, write_archive_save loc (appended (parse_path save_path)) (s1, w1))"
    by (rule cw)
next
  fix a b
  assume "name (parse_path save_path) = a @ CHR ''.'' # b \<and> CHR ''.'' \<notin> set b"
  then have "archive_target save_path =
          Inr (if a \<noteq> [] \<and> b \<noteq> [] then parse_path save_path else appended (parse_path save_path))"
    using archive_target_last_dot by blast
  then show "create_perm_save getSaveFileName (s, w)
      = (None, write_archive_save loc
                 (if a \<noteq> [] \<and> b \<noteq> [] then parse_path save_path
                  else appended (parse_path save_path)) (s1, w1))"
    by (rule cw)
next
  fix pre t post
  assume h: "name (parse_path save_path) = pre @ strftime_stamp t @ post \<and> CHR ''.'' \<notin> set post"
  then show "suffix (parse_path save_path) = CHR ''.'' # pad2 (minute t) @ post"
    using archive_target_stamp(1) by blast
  from h have "archive_target save_path = Inr (parse_path save_path)"
    using archive_target_stamp(2) by blast
  then show "create_perm_save getSaveFileName (s, w)
      = (None, write_archive_save loc (parse_path save_path) (s1, w1))"
    by (rule cw)
next
  fix save_file bytes
  assume h: "lookup w1 loc = Some (File bytes) \<and> save_file \<noteq> loc
              \<and> lookup w1 save_file \<noteq> Some Dir \<and> lookup w1 (parent save_file) = Some Dir"
  then have *: "lookup (snd (write_archive_save loc save_file (s1, w1))) save_file = Some (File bytes)
       \<and> io_log (snd (write_archive_save loc save_file (s1, w1))) = io_log w1 @ [Copy loc save_file]
       \<and> main_message (fst (write_archive_save loc save_file (s1, w1)))
           = main_message s1 @ [message_item (clock w1 (ticks w1)) (''Saved to '' @ str_path save_file)]"
    using write_archive_save_copies by blast
  from * show "lookup (snd (write_archive_save loc save_file (s1, w1))) save_file = Some (File bytes)"
    by blast
  from * show "io_log (snd (write_archive_save loc save_file (s1, w1))) = io_log w1 @ [Copy loc save_file]"
    by blast
  from * show "main_message (fst (write_archive_save loc save_file (s1, w1)))
           = main_message s1 @ [message_item (clock w1 (ticks w1)) (''Saved to '' @ str_path save_file)]"
    by blast
qed
qed


text \<open>
  The claim as written says that a dot anywhere in the final component keeps \<^verbatim>\<open>.cogsav\<close>
  from being appended; with only a leading dot the save is written to the name with
  \<^verbatim>\<open>.cogsav\<close> appended, and nothing is written to the name chosen.
\<close>

lemma parse_save_selected:
  "parse_save (selected, game_world) =
      (Inr ''Avery 26.11.04 09.05 chapter1'',
       selected\<lparr>main_message :=
          [message_item (demo_clock 0) ''Parsing current save...'',
           message_item (demo_clock (Suc (Suc 0))) ''Avery 26.11.04 09.05 chapter1'']\<rparr>,
       game_world\<lparr>io_log := [OpenRead live_path], ticks := 3\<rparr>)"
proof -
  have t: "strftime_stamp (demo_clock n) = ''26.11.04 09.05''" for n
    by (simp add: strftime_stamp_def pad2_def digit_def demo_clock_def)
  have nm: "name_match live_content = Some ''Avery''"
    and sm: "scene_match live_content = Some ''chapter1''"
    by (simp_all add: live_content_def regex_defs)
  have un: "universal_newlines live_content = live_content"
    and ok: "utf8_valid live_content"
    by (simp_all add: live_content_def dquote_def carriage_return_def byte_def)
  show ?thesis
    by (simp add: parse_save_def append_message_eq read_text_def suggest_def now_def
        lookup_def trace_def selected_def game_world_def live_path_def un ok nm sm t
        truthy_def Let_def numeral_3_eq_3)
qed

theorem archive_save_extension_counterexample:
  "CHR ''.'' \<in> set (name (parse_path ''/g/saves/.backup''))
   \<and> io_log (snd (snd (create_perm_save (\<lambda>initial. ''/g/saves/.backup'') (selected, game_world))))
        = [OpenRead live_path, Copy live_path (Path ''/'' [''g'', ''saves'', ''.backup.cogsav''])]
   \<and> lookup (snd (snd (create_perm_save (\<lambda>initial. ''/g/saves/.backup'') (selected, game_world))))
        (Path ''/'' [''g'', ''saves'', ''.backup.cogsav'']) = Some (File live_content)
   \<and> lookup (snd (snd (create_perm_save (\<lambda>initial. ''/g/saves/.backup'') (selected, game_world))))
        (Path ''/'' [''g'', ''saves'', ''.backup'']) = None"
proof -
  have sl: "save_location selected = Some live_path"
    by (simp add: selected_def)
  have at: "archive_target ''/g/saves/.backup'' = Inr (Path ''/'' [''g'', ''saves'', ''.backup.cogsav''])"
    by (simp add: archive_target_def with_suffix_def suffix_def path_defs Let_def)
  have r: "create_perm_save (\<lambda>initial. ''/g/saves/.backup'') (selected, game_world)
      = (None, write_archive_save live_path (Path ''/'' [''g'', ''saves'', ''.backup.cogsav''])
           (selected\<lparr>main_message :=
              [message_item (demo_clock 0) ''Parsing current save...'',
               message_item (demo_clock (Suc (Suc 0))) ''Avery 26.11.04 09.05 chapter1'']\<rparr>,
            game_world\<lparr>io_log := [OpenRead live_path], ticks := 3\<rparr>))"
    by (simp add: create_perm_save_def sl parse_save_selected at)
  show ?thesis
    unfolding r
    by (simp add: write_archive_save_def copy2_def lookup_def trace_def append_message_eq Let_def
        game_world_def live_path_def path_defs)
qed


theorem archive_save_extension_witness:
  "save_location selected = Some live_path
   \<and> fst (parse_save (selected, game_world)) = Inr ''Avery 26.11.04 09.05 chapter1''
   \<and> lookup (snd (snd (create_perm_save (\<lambda>initial. ''/g/saves/mysave'') (selected, game_world))))
        (Path ''/'' [''g'', ''saves'', ''mysave.cogsav'']) = Some (File live_content)
   \<and> lookup (snd (snd (create_perm_save (\<lambda>initial. ''/g/saves/my.save'') (selected, game_world))))
        (Path ''/'' [''g'', ''saves'', ''my.save'']) = Some (File live_content)
   \<and> lookup (snd (snd (create_perm_save (\<lambda>initial. initial) (selected, game_world))))
        (Path ''/'' [''g'', ''saves'', ''Avery 26.11.04 09.05 chapter1'']) = Some (File live_content)
   \<and> io_log (snd (snd (create_perm_save (\<lambda>initial. initial) (selected, game_world))))
        = [OpenRead live_path,
           Copy live_path (Path ''/'' [''g'', ''saves'', ''Avery 26.11.04 09.05 chapter1''])]"
proof -
  let ?s1 = "selected\<lparr>main_message :=
          [message_item (demo_clock 0) ''Parsing current save...'',
           message_item (demo_clock (Suc (Suc 0))) ''Avery 26.11.04 09.05 chapter1'']\<rparr>"
  let ?w1 = "game_world\<lparr>io_log := [OpenRead live_path], ticks := 3\<rparr>"
  let ?t1 = "Path ''/'' [''g'', ''saves'', ''mysave.cogsav'']"
  let ?t2 = "Path ''/'' [''g'', ''saves'', ''my.save'']"
  let ?t3 = "Path ''/'' [''g'', ''saves'', ''Avery 26.11.04 09.05 chapter1'']"
  have sl: "save_location selected = Some live_path"
    by (simp add: selected_def)
  note ps = parse_save_selected
  have t: "strftime_stamp (demo_clock n) = ''26.11.04 09.05''" for n
    by (simp add: strftime_stamp_def pad2_def digit_def demo_clock_def)
  have p1: "parse_path ''/g/saves/mysave'' = Path ''/'' [''g'', ''saves'', ''mysave'']"
    and p2: "parse_path ''/g/saves/my.save'' = ?t2"
    and p3: "parse_path ''/g/saves/Avery 26.11.04 09.05 chapter1'' = ?t3"
    by (simp_all add: parse_path_def splitroot_def)
  have init3: "(case save_folder ?s1 of
                  Some folder \<Rightarrow> str_path (truediv folder ''Avery 26.11.04 09.05 chapter1'')
                | None \<Rightarrow> ''Avery 26.11.04 09.05 chapter1'')
               = ''/g/saves/Avery 26.11.04 09.05 chapter1''"
    by (simp add: selected_def path_defs)
  have live: "lookup ?w1 live_path = Some (File live_content)"
    by (simp add: game_world_def lookup_def live_path_def)
  have free: "?t1 \<noteq> live_path \<and> lookup ?w1 ?t1 \<noteq> Some Dir \<and> lookup ?w1 (parent ?t1) = Some Dir"
    "?t2 \<noteq> live_path \<and> lookup ?w1 ?t2 \<noteq> Some Dir \<and> lookup ?w1 (parent ?t2) = Some Dir"
    "?t3 \<noteq> live_path \<and> lookup ?w1 ?t3 \<noteq> Some Dir \<and> lookup ?w1 (parent ?t3) = Some Dir"
    by (simp_all add: game_world_def lookup_def live_path_def parent_def)
  have n1: "name (parse_path ''/g/saves/mysave'') \<noteq> []
      \<and> CHR ''.'' \<notin> set (name (parse_path ''/g/saves/mysave''))"
    and a1: "appended (parse_path ''/g/saves/mysave'') = ?t1"
    by (simp_all add: p1 name_def appended_def)
  have n2: "name (parse_path ''/g/saves/my.save'') = ''my'' @ CHR ''.'' # ''save''
      \<and> CHR ''.'' \<notin> set ''save''"
    by (simp add: p2 name_def)
  have n3: "name (parse_path ''/g/saves/Avery 26.11.04 09.05 chapter1'')
          = ''Avery '' @ strftime_stamp (demo_clock 0) @ '' chapter1''
      \<and> CHR ''.'' \<notin> set '' chapter1''"
    by (simp add: p3 name_def t)
  have x1: "''/g/saves/mysave'' \<noteq> []" and x2: "''/g/saves/my.save'' \<noteq> []"
    and x3: "''/g/saves/Avery 26.11.04 09.05 chapter1'' \<noteq> []"
    by simp_all
  have c1: "(\<lambda>initial. ''/g/saves/mysave'')
              (case save_folder ?s1 of
                 Some folder \<Rightarrow> str_path (truediv folder ''Avery 26.11.04 09.05 chapter1'')
               | None \<Rightarrow> ''Avery 26.11.04 09.05 chapter1'') = ''/g/saves/mysave''"
    and c2: "(\<lambda>initial. ''/g/saves/my.save'')
              (case save_folder ?s1 of
                 Some folder \<Rightarrow> str_path (truediv folder ''Avery 26.11.04 09.05 chapter1'')
               | None \<Rightarrow> ''Avery 26.11.04 09.05 chapter1'') = ''/g/saves/my.save''"
    and c3: "(\<lambda>initial. initial)
              (case save_folder ?s1 of
                 Some folder \<Rightarrow> str_path (truediv folder ''Avery 26.11.04 09.05 chapter1'')
               | None \<Rightarrow> ''Avery 26.11.04 09.05 chapter1'')
             = ''/g/saves/Avery 26.11.04 09.05 chapter1''"
    using init3 by simp_all
  note e1 = archive_save_extension
    [where getSaveFileName = "\<lambda>initial. ''/g/saves/mysave''" and save_path = "''/g/saves/mysave''",
     OF sl ps c1 x1]
  note e2 = archive_save_extension
    [where getSaveFileName = "\<lambda>initial. ''/g/saves/my.save''" and save_path = "''/g/saves/my.save''",
     OF sl ps c2 x2]
  note e3 = archive_save_extension
    [where getSaveFileName = "\<lambda>initial. initial"
       and save_path = "''/g/saves/Avery 26.11.04 09.05 chapter1''",
     OF sl ps c3 x3]
  have r1: "create_perm_save (\<lambda>initial. ''/g/saves/mysave'') (selected, game_world)
      = (None, write_archive_save live_path ?t1 (?s1, ?w1))"
    using mp [OF e1 [THEN conjunct1] n1] by (simp only: a1)
  have r2: "create_perm_save (\<lambda>initial. ''/g/saves/my.save'') (selected, game_world)
      = (None, write_archive_save live_path ?t2 (?s1, ?w1))"
    using e2 [THEN conjunct2, THEN conjunct1, THEN spec, THEN spec, THEN mp, OF n2]
    by (simp add: p2)
  have r3: "create_perm_save (\<lambda>initial. initial) (selected, game_world)
      = (None, write_archive_save live_path ?t3 (?s1, ?w1))"
    using e3 [THEN conjunct2, THEN conjunct2, THEN conjunct1, THEN spec, THEN spec, THEN spec,
        THEN mp, OF n3, THEN conjunct2]
    by (simp only: p3)
  note d = e1 [THEN conjunct2, THEN conjunct2, THEN conjunct2, THEN spec, THEN spec, THEN mp]
  have w1: "lookup (snd (write_archive_save live_path ?t1 (?s1, ?w1))) ?t1 = Some (File live_content)"
    using d [OF conjI [OF live free(1)]] by (rule conjunct1)
  have w2: "lookup (snd (write_archive_save live_path ?t2 (?s1, ?w1))) ?t2 = Some (File live_content)"
    using d [OF conjI [OF live free(2)]] by (rule conjunct1)
  have w3: "lookup (snd (write_archive_save live_path ?t3 (?s1, ?w1))) ?t3 = Some (File live_content)"
    "io_log (snd (write_archive_save live_path ?t3 (?s1, ?w1))) = io_log ?w1 @ [Copy live_path ?t3]"
    using d [OF conjI [OF live free(3)]] by blast+
  have io: "io_log ?w1 = [OpenRead live_path]"
    by simp
  show ?thesis
    unfolding r1 r2 r3 using sl w1 w2 w3 io by (simp add: ps)
qed

end
